theory Spec2Isabelle
  imports Complex_Main
begin

section \<open>JavaScript values and exceptions\<close>

text \<open>
  The browser code works on values parsed from JSON. A number is a finite double (JSON has
  neither NaN nor an infinity) and is read as a real; a string is a text without unpaired
  surrogates, so that \<open>encodeURIComponent\<close> accepts it; an object is the list of its own
  properties, the first binding of a key being the one that is read.
\<close>

datatype jsval =
    JUndefined
  | JNull
  | JBool bool
  | JNum real
  | JStr string
  | JArr "jsval list"
  | JObj "(string \<times> jsval) list"

text \<open>
  The exceptions: the errors of the language and of \<open>fetch\<close>, and \<open>LeafletError\<close>, an
  \<open>Error\<close> thrown by a constructor of Leaflet for a position or a radius that is not a
  number.
\<close>

datatype js_error = TypeError | NetworkError | SyntaxError | LeafletError

text \<open>ToBoolean: what \<open>if (v)\<close>, \<open>!v\<close>, \<open>v ? a : b\<close> and \<open>a && b\<close> test.\<close>

fun truthy :: "jsval \<Rightarrow> bool" where
  "truthy JUndefined = False"
| "truthy JNull = False"
| "truthy (JBool b) = b"
| "truthy (JNum n) = (n \<noteq> 0)"
| "truthy (JStr s) = (s \<noteq> [])"
| "truthy (JArr xs) = True"
| "truthy (JObj kvs) = True"

text \<open>A member read \<open>v.k\<close> throws a TypeError exactly when \<open>v\<close> is null or undefined.\<close>

fun nullish :: "jsval \<Rightarrow> bool" where
  "nullish JUndefined = True"
| "nullish JNull = True"
| "nullish v = False"

text \<open>
  \<open>get v k\<close> is the member read \<open>v.k\<close> of a receiver that is not nullish, for the data
  property names this program reads: an own property of an object, the length of an array
  or of a string, and undefined otherwise. (Of the names read, a string inherits one more,
  the legacy method \<open>link\<close>; it is left out, the records of the server being objects.)
\<close>

fun get :: "jsval \<Rightarrow> string \<Rightarrow> jsval" where
  "get (JObj kvs) k = (case map_of kvs k of Some v \<Rightarrow> v | None \<Rightarrow> JUndefined)"
| "get (JArr xs) k = (if k = ''length'' then JNum (real (length xs)) else JUndefined)"
| "get (JStr s) k = (if k = ''length'' then JNum (real (length s)) else JUndefined)"
| "get v k = JUndefined"

text \<open>The element read \<open>p[i]\<close> of a receiver that is not nullish, for \<open>i\<close> below ten.\<close>

definition index_key :: "nat \<Rightarrow> string" where
  "index_key i = [char_of (48 + i)]"

fun index :: "jsval \<Rightarrow> nat \<Rightarrow> jsval" where
  "index (JArr xs) i = (if i < length xs then xs ! i else JUndefined)"
| "index (JStr s) i = (if i < length s then JStr [s ! i] else JUndefined)"
| "index (JObj kvs) i = (case map_of kvs (index_key i) of Some v \<Rightarrow> v | None \<Rightarrow> JUndefined)"
| "index v i = JUndefined"

text \<open>
  The conversion of a value to a string (in a template literal, a string concatenation, a
  property key, \<open>textContent\<close>) throws a TypeError for an object with an own property
  \<open>toString\<close>, which hides the inherited method and, coming from JSON, cannot be called;
  an array is converted by joining the strings of its elements that are not null.
\<close>

fun stringifiable :: "jsval \<Rightarrow> bool" where
  "stringifiable (JObj kvs) = (map_of kvs ''toString'' = None)"
| "stringifiable (JArr xs) = list_all stringifiable xs"
| "stringifiable v = True"

text \<open>
  What the model takes from outside. \<open>toNumber\<close> is the conversion to a number of a
  string, an array or an object that can be converted to a string (\<open>None\<close> for NaN).
  \<open>rings\<close> is what Leaflet raises, if anything, when it converts a list of points that it
  reads as a list of rings.
\<close>

record platform =
  toNumber :: "jsval \<Rightarrow> real option"
  rings :: "(jsval \<times> jsval) list \<Rightarrow> js_error option"

text \<open>
  The conversion of a value to a number (in \<open>isNaN\<close>, a comparison, a product):
  undefined is NaN, null is 0, a boolean is 0 or 1; a string, an array or an object is
  first converted to a string, which may throw.
\<close>

definition to_number :: "platform \<Rightarrow> jsval \<Rightarrow> js_error + real option" where
  "to_number pf v =
     (case v of
        JNum n \<Rightarrow> Inr (Some n)
      | JUndefined \<Rightarrow> Inr None
      | JNull \<Rightarrow> Inr (Some 0)
      | JBool b \<Rightarrow> Inr (Some (if b then 1 else 0))
      | _ \<Rightarrow> if \<not> stringifiable v then Inl TypeError else Inr (toNumber pf v))"

definition isNaN :: "platform \<Rightarrow> jsval \<Rightarrow> js_error + bool" where
  "isNaN pf v = (case to_number pf v of Inl e \<Rightarrow> Inl e | Inr r \<Rightarrow> Inr (r = None))"

text \<open>
  \<open>Array.prototype.forEach\<close> with a callback that mutates a state and may throw: the
  state changes made before the exception stay, the remaining elements are not visited.
  A \<open>return\<close> inside the callback only ends the visit of one element.
\<close>

fun forEach :: "(jsval \<Rightarrow> 's \<Rightarrow> 's \<times> js_error option) \<Rightarrow> jsval list \<Rightarrow> 's \<Rightarrow> 's \<times> js_error option" where
  "forEach cb [] s = (s, None)"
| "forEach cb (x # xs) s =
     (case cb x s of
        (s', None) \<Rightarrow> forEach cb xs s'
      | (s', Some e) \<Rightarrow> (s', Some e))"

text \<open>\<open>data.forEach(cb)\<close> on a JSON value: only an array has the method.\<close>

definition forEach_js :: "(jsval \<Rightarrow> 's \<Rightarrow> 's \<times> js_error option) \<Rightarrow> jsval \<Rightarrow> 's \<Rightarrow> 's \<times> js_error option" where
  "forEach_js cb data s = (case data of JArr xs \<Rightarrow> forEach cb xs s | _ \<Rightarrow> (s, Some TypeError))"

section \<open>Generated HTML\<close>

text \<open>
  A template literal is kept as the sequence of its literal chunks and interpolated values.
  The string conversions of the platform stay symbolic: \<open>Str v\<close> is \<open>String(v)\<close>,
  \<open>Fixed1 r\<close> is \<open>r.toFixed(1)\<close>, \<open>Upper s\<close> is \<open>s.toUpperCase()\<close>, \<open>Esc v\<close> is
  the text of \<open>v\<close> escaped by the DOM and \<open>Time v\<close> is the relative time of
  \<open>formatTime\<close>. \<open>Options vs current\<close> is the list of \<open>option\<close> elements of the
  distinct values of \<open>vs\<close> in the default sort order, the one equal to \<open>current\<close>
  selected. White space between tags is left out.
\<close>

datatype html_text =
    Lit string
  | Str jsval
  | Fixed1 real
  | Upper string
  | Esc jsval
  | Time jsval
  | Options "jsval list" string

type_synonym html = "html_text list"

text \<open>Evaluating a template literal converts every interpolated value to a string.\<close>

fun convertible :: "html_text \<Rightarrow> bool" where
  "convertible (Str v) = stringifiable v"
| "convertible (Esc v) = stringifiable v"
| "convertible (Time v) = stringifiable v"
| "convertible (Options vs current) = list_all stringifiable vs"
| "convertible piece = True"

definition template :: "html \<Rightarrow> js_error + html" where
  "template pieces = (if list_all convertible pieces then Inr pieces else Inl TypeError)"

text \<open>\<open>v.toFixed(1)\<close>: only a number has the method.\<close>

fun toFixed1 :: "jsval \<Rightarrow> js_error + html_text" where
  "toFixed1 (JNum r) = Inr (Fixed1 r)"
| "toFixed1 v = Inl TypeError"

text \<open>\<open>v.toUpperCase()\<close>: only a string has the method.\<close>

fun toUpperCase :: "jsval \<Rightarrow> js_error + html_text" where
  "toUpperCase (JStr s) = Inr (Upper s)"
| "toUpperCase v = Inl TypeError"

section \<open>The map module (static/js/map.js)\<close>

text \<open>
  Leaflet is an outside library. Its objects are kept as values: a marker by its coordinates,
  icon and popup, a circle by its centre, options and popup, a polyline by its points and
  popup, a marker cluster group by the layers added to it. A layer holds the arguments
  its constructor was called with; the checks the constructors make on them are modelled
  below. A layer group is the list of its layers in the order they were added;
  \<open>clearLayers\<close> empties it and \<open>addLayer\<close> appends. Drawing is outside the model:
  adding a layer to a group is taken not to throw, also for a group that is shown on the
  map. The HTML of an icon is a function of the argument of the icon constructor and stays
  symbolic.
\<close>

datatype icon =
    EarthquakeIcon jsval
  | HotspotIcon jsval
  | BaseIcon jsval
  | NuclearIcon
  | WaterwayIcon
  | DisasterIcon jsval
  | ConflictEventIcon

datatype layer =
    Marker jsval jsval icon html
  | Circle jsval jsval jsval jsval html
  | Polyline "(jsval \<times> jsval) list" html
  | MarkerCluster "layer list"

text \<open>
  The module state: \<open>layerGroups\<close> maps a name to its layer group once \<open>init\<close> has
  created it, \<open>on_map\<close> lists the groups shown on the map.
\<close>

record map_state =
  layerGroups :: "string \<rightharpoonup> layer list"
  on_map :: "string list"

definition layerNames :: "string list" where
  "layerNames = [''earthquakes'', ''conflicts'', ''hotspots'', ''bases'',
     ''nuclear'', ''waterways'', ''cables'', ''disasters'', ''conflict-events'']"

definition map_init :: "map_state" where
  "map_init = \<lparr> layerGroups = (\<lambda>name. if name \<in> set layerNames then Some [] else None),
     on_map = [''earthquakes'', ''conflicts'', ''hotspots''] \<rparr>"

definition clearLayers :: "string \<Rightarrow> map_state \<Rightarrow> map_state" where
  "clearLayers name s = s\<lparr> layerGroups := (layerGroups s)(name \<mapsto> []) \<rparr>"

definition addLayer :: "string \<Rightarrow> layer \<Rightarrow> map_state \<Rightarrow> map_state" where
  "addLayer name l s =
     s\<lparr> layerGroups := (layerGroups s)(name \<mapsto> (case layerGroups s name of Some ls \<Rightarrow> ls @ [l] | None \<Rightarrow> [l])) \<rparr>"

text \<open>
  The body shared by the callbacks of the update functions: build the layer of one record
  (the build may throw, or \<open>return\<close> without a layer) and add it to the group.
\<close>

definition add_to_group :: "string \<Rightarrow> (jsval \<Rightarrow> js_error + layer option) \<Rightarrow> jsval \<Rightarrow> map_state \<Rightarrow> map_state \<times> js_error option" where
  "add_to_group name build x s =
     (case build x of
        Inl e \<Rightarrow> (s, Some e)
      | Inr None \<Rightarrow> (s, None)
      | Inr (Some l) \<Rightarrow> (addLayer name l s, None))"

text \<open>
  An update function: \<open>layerGroups[name].clearLayers()\<close> (a TypeError before \<open>init\<close>,
  when the group does not exist), then \<open>data.forEach\<close>.
\<close>

definition update_group :: "string \<Rightarrow> (jsval \<Rightarrow> js_error + layer option) \<Rightarrow> jsval \<Rightarrow> map_state \<Rightarrow> map_state \<times> js_error option" where
  "update_group name build data s =
     (case layerGroups s name of
        None \<Rightarrow> (s, Some TypeError)
      | Some old \<Rightarrow> forEach_js (add_to_group name build) data (clearLayers name s))"

subsection \<open>What Leaflet's constructors check\<close>

text \<open>
  The constructors of Leaflet 1.x convert the position they are given with
  \<open>toLatLng([lat, lng])\<close> (\<open>LatLng.js\<close>): when \<open>typeof lat\<close> is \<open>'object'\<close> the
  result is no position, and nothing is thrown; otherwise \<open>new LatLng(lat, lng)\<close> throws
  an \<open>Error\<close> when \<open>isNaN(lat) || isNaN(lng)\<close>, with a message built from both
  coordinates. Each of the following gives what the constructor throws, if anything.
\<close>

fun is_object :: "jsval \<Rightarrow> bool" where
  "is_object JNull = True"
| "is_object (JArr xs) = True"
| "is_object (JObj kvs) = True"
| "is_object v = False"

definition LatLng :: "platform \<Rightarrow> jsval \<Rightarrow> jsval \<Rightarrow> js_error option" where
  "LatLng pf lat lng =
     (case isNaN pf lat of
        Inl e \<Rightarrow> Some e
      | Inr True \<Rightarrow> if stringifiable lng then Some LeafletError else Some TypeError
      | Inr False \<Rightarrow>
          (case isNaN pf lng of
             Inl e \<Rightarrow> Some e
           | Inr True \<Rightarrow> Some LeafletError
           | Inr False \<Rightarrow> None))"

definition toLatLng :: "platform \<Rightarrow> jsval \<Rightarrow> jsval \<Rightarrow> js_error option" where
  "toLatLng pf lat lng = (if is_object lat then None else LatLng pf lat lng)"

text \<open>\<open>L.marker([lat, lng], options)\<close> converts the position.\<close>

definition L_marker :: "platform \<Rightarrow> jsval \<Rightarrow> jsval \<Rightarrow> js_error option" where
  "L_marker pf lat lng = toLatLng pf lat lng"

text \<open>
  \<open>L.circle([lat, lng], options)\<close> converts the position, then throws an \<open>Error\<close> when
  \<open>isNaN(options.radius)\<close> (\<open>Circle.js\<close>).
\<close>

definition L_circle :: "platform \<Rightarrow> jsval \<Rightarrow> jsval \<Rightarrow> jsval \<Rightarrow> js_error option" where
  "L_circle pf lat lng radius =
     (case toLatLng pf lat lng of
        Some e \<Rightarrow> Some e
      | None \<Rightarrow>
          (case isNaN pf radius of
             Inl e \<Rightarrow> Some e
           | Inr True \<Rightarrow> Some LeafletError
           | Inr False \<Rightarrow> None))"

fun first_error :: "js_error option list \<Rightarrow> js_error option" where
  "first_error [] = None"
| "first_error (Some e # rest) = Some e"
| "first_error (None # rest) = first_error rest"

text \<open>
  \<open>L.polyline(latlngs, options)\<close> (\<open>Polyline.js\<close>) reads a list of points as flat when
  the first coordinate of its first point is neither undefined nor of type \<open>'object'\<close>, and
  then converts the position of each point in turn. Otherwise it reads the list as a list
  of rings and converts it recursively; what that raises is the parameter \<open>rings\<close>.
\<close>

definition L_polyline :: "platform \<Rightarrow> (jsval \<times> jsval) list \<Rightarrow> js_error option" where
  "L_polyline pf latlngs =
     (case latlngs of
        [] \<Rightarrow> None
      | (lat0, lng0) # rest \<Rightarrow>
          if is_object lat0 \<or> lat0 = JUndefined then rings pf latlngs
          else first_error (map (\<lambda>(lat, lng). toLatLng pf lat lng) latlngs))"

subsection \<open>The layer built from one record\<close>

text \<open>A step that may throw, before the rest.\<close>

definition check :: "js_error option \<Rightarrow> js_error + 'a \<Rightarrow> js_error + 'a" where
  "check thrown rest = (case thrown of Some e \<Rightarrow> Inl e | None \<Rightarrow> rest)"

text \<open>
  An icon function that uses its argument converts it, to a number
  (\<open>icons.earthquake\<close>) or to a property key (\<open>colors[level]\<close>).
\<close>

definition icon_arg :: "jsval \<Rightarrow> js_error option" where
  "icon_arg v = (if stringifiable v then None else Some TypeError)"

text \<open>A layer with the popup of a template: \<open>mk(...).bindPopup(`...`)\<close>.\<close>

definition popup_layer :: "(html \<Rightarrow> layer) \<Rightarrow> html \<Rightarrow> js_error + layer option" where
  "popup_layer mk pieces =
     (case template pieces of Inl e \<Rightarrow> Inl e | Inr popup \<Rightarrow> Inr (Some (mk popup)))"

definition earthquake_layer :: "platform \<Rightarrow> jsval \<Rightarrow> js_error + layer option" where
  \<open>earthquake_layer pf eq =
     (if nullish eq then Inl TypeError
      else
        check (icon_arg (get eq ''magnitude''))
       (check (L_marker pf (get eq ''lat'') (get eq ''lng''))
         (case toFixed1 (get eq ''magnitude'') of
            Inl e \<Rightarrow> Inl e
          | Inr mag \<Rightarrow>
             (case toFixed1 (get eq ''depth'') of
                Inl e \<Rightarrow> Inl e
              | Inr depth \<Rightarrow>
                  popup_layer (Marker (get eq ''lat'') (get eq ''lng'') (EarthquakeIcon (get eq ''magnitude'')))
                   ([Lit ''<h4>M'', mag, Lit '' Earthquake</h4>'',
                     Lit ''<div class="popup-detail">'', Str (get eq ''place''), Lit ''</div>'',
                     Lit ''<div class="popup-detail">Depth: '', depth, Lit '' km</div>'',
                     Lit (if truthy (get eq ''tsunami'') then ''<div class="popup-type">TSUNAMI WARNING</div>'' else [])]
                     @ (if truthy (get eq ''felt'')
                        then [Lit ''<div class="popup-detail">Felt by '', Str (get eq ''felt''), Lit '' people</div>'']
                        else [Lit []]))))))\<close>

definition conflict_zone_layer :: "platform \<Rightarrow> jsval \<Rightarrow> js_error + layer option" where
  \<open>conflict_zone_layer pf zone =
     (if nullish zone then Inl TypeError
      else
        check (L_circle pf (get zone ''lat'') (get zone ''lng'') (get zone ''radius''))
         (popup_layer (Circle (get zone ''lat'') (get zone ''lng'') (get zone ''radius'') (get zone ''color''))
            [Lit ''<h4>'', Str (get zone ''name''), Lit ''</h4>'',
             Lit ''<div class="popup-type">'', Str (get zone ''status''), Lit ''</div>'',
             Lit ''<div class="popup-detail">'', Str (get zone ''description''), Lit ''</div>'']))\<close>

definition hotspot_layer :: "platform \<Rightarrow> jsval \<Rightarrow> js_error + layer option" where
  \<open>hotspot_layer pf hs =
     (if nullish hs then Inl TypeError
      else
        check (icon_arg (get hs ''level''))
       (check (L_marker pf (get hs ''lat'') (get hs ''lng''))
         (case toUpperCase (get hs ''level'') of
            Inl e \<Rightarrow> Inl e
          | Inr level \<Rightarrow>
              popup_layer (Marker (get hs ''lat'') (get hs ''lng'') (HotspotIcon (get hs ''level'')))
                [Lit ''<h4>'', Str (get hs ''name''), Lit ''</h4>'',
                 Lit ''<div class="popup-type">'', level, Lit '' RISK</div>'',
                 Lit ''<div class="popup-detail">'', Str (get hs ''description''), Lit ''</div>''])))\<close>

definition base_layer :: "platform \<Rightarrow> jsval \<Rightarrow> js_error + layer option" where
  \<open>base_layer pf base =
     (if nullish base then Inl TypeError
      else
        check (icon_arg (get base ''operator''))
       (check (L_marker pf (get base ''lat'') (get base ''lng''))
         (popup_layer (Marker (get base ''lat'') (get base ''lng'') (BaseIcon (get base ''operator'')))
            [Lit ''<h4>'', Str (get base ''name''), Lit ''</h4>'',
             Lit ''<div class="popup-type">'', Str (get base ''operator''), Lit '' - '',
             Str (get base ''type''), Lit ''</div>''])))\<close>

definition nuclear_layer :: "platform \<Rightarrow> jsval \<Rightarrow> js_error + layer option" where
  \<open>nuclear_layer pf fac =
     (if nullish fac then Inl TypeError
      else
        check (L_marker pf (get fac ''lat'') (get fac ''lng''))
         (popup_layer (Marker (get fac ''lat'') (get fac ''lng'') NuclearIcon)
            [Lit ''<h4>'', Str (get fac ''name''), Lit ''</h4>'',
             Lit ''<div class="popup-type">'', Str (get fac ''type''), Lit ''</div>'',
             Lit ''<div class="popup-detail">'', Str (get fac ''country''), Lit ''</div>'']))\<close>

definition waterway_layer :: "platform \<Rightarrow> jsval \<Rightarrow> js_error + layer option" where
  \<open>waterway_layer pf ww =
     (if nullish ww then Inl TypeError
      else
        check (L_marker pf (get ww ''lat'') (get ww ''lng''))
         (popup_layer (Marker (get ww ''lat'') (get ww ''lng'') WaterwayIcon)
            [Lit ''<h4>'', Str (get ww ''name''), Lit ''</h4>'',
             Lit ''<div class="popup-detail">Traffic: '', Str (get ww ''traffic''), Lit ''</div>'',
             Lit ''<div class="popup-detail">Controlled by: '', Str (get ww ''controlled_by''), Lit ''</div>'']))\<close>

text \<open>\<open>v >= 2\<close>: NaN compares false.\<close>

definition ge2 :: "platform \<Rightarrow> jsval \<Rightarrow> js_error + bool" where
  "ge2 pf v =
     (case to_number pf v of
        Inl e \<Rightarrow> Inl e
      | Inr None \<Rightarrow> Inr False
      | Inr (Some n) \<Rightarrow> Inr (n \<ge> 2))"

text \<open>
  \<open>cable.points.map(p => [p[0], p[1]])\<close>: only an array has \<open>map\<close>; the callback
  throws on a point that is null.
\<close>

definition latlngs_of :: "jsval \<Rightarrow> js_error + (jsval \<times> jsval) list" where
  "latlngs_of points =
     (case points of
        JArr ps \<Rightarrow> (if list_ex nullish ps then Inl TypeError
                    else Inr (map (\<lambda>p. (index p 0, index p 1)) ps))
      | _ \<Rightarrow> Inl TypeError)"

definition cable_layer :: "platform \<Rightarrow> jsval \<Rightarrow> js_error + layer option" where
  \<open>cable_layer pf cable =
     (if nullish cable then Inl TypeError
      else if \<not> truthy (get cable ''points'') then Inr None
      else case ge2 pf (get (get cable ''points'') ''length'') of
        Inl e \<Rightarrow> Inl e
      | Inr enough \<Rightarrow>
          if \<not> enough then Inr None
          else case latlngs_of (get cable ''points'') of
            Inl e \<Rightarrow> Inl e
          | Inr latlngs \<Rightarrow>
              check (L_polyline pf latlngs)
               (popup_layer (Polyline latlngs)
                  [Lit ''<h4>'', Str (get cable ''name''), Lit ''</h4>'',
                   Lit ''<div class="popup-detail">Capacity: '', Str (get cable ''capacity''), Lit ''</div>'',
                   Lit ''<div class="popup-detail">Route: '', Str (get cable ''route''), Lit ''</div>'']))\<close>

text \<open>\<open>if (d.lat === 0 && d.lng === 0) return;\<close> is the strict comparison with the number 0.\<close>

definition disaster_layer :: "platform \<Rightarrow> jsval \<Rightarrow> js_error + layer option" where
  \<open>disaster_layer pf d =
     (if nullish d then Inl TypeError
      else if get d ''lat'' = JNum 0 \<and> get d ''lng'' = JNum 0 then Inr None
      else
        check (icon_arg (get d ''category''))
       (check (L_marker pf (get d ''lat'') (get d ''lng''))
         (popup_layer (Marker (get d ''lat'') (get d ''lng'') (DisasterIcon (get d ''category'')))
            ([Lit ''<h4>'', Str (get d ''title''), Lit ''</h4>'',
              Lit ''<div class="popup-type">'', Str (get d ''category''), Lit '' '']
             @ (if truthy (get d ''alert_level'') then [Lit ''- '', Str (get d ''alert_level'')] else [Lit []])
             @ [Lit ''</div>'',
                Lit ''<div class="popup-detail">Source: '', Str (get d ''source''), Lit ''</div>'']))))\<close>

text \<open>\<open>a || b\<close> inside a template: the first operand when it is truthy.\<close>

definition or_else :: "jsval \<Rightarrow> html_text \<Rightarrow> html_text" where
  "or_else v other = (if truthy v then Str v else other)"

definition conflict_event_layer :: "platform \<Rightarrow> jsval \<Rightarrow> js_error + layer option" where
  \<open>conflict_event_layer pf ev =
     (if nullish ev then Inl TypeError
      else if \<not> truthy (get ev ''lat'') \<or> \<not> truthy (get ev ''lng'') then Inr None
      else
        check (L_marker pf (get ev ''lat'') (get ev ''lng''))
         (popup_layer (Marker (get ev ''lat'') (get ev ''lng'') ConflictEventIcon)
            ([Lit ''<h4>'', or_else (get ev ''type'') (Lit ''Conflict Event''), Lit ''</h4>'',
              Lit ''<div class="popup-type">'',
              or_else (get ev ''sub_type'') (or_else (get ev ''notes'') (Lit [])), Lit ''</div>'',
              Lit ''<div class="popup-detail">'', or_else (get ev ''country'') (Lit []), Lit '' '']
             @ (if truthy (get ev ''region'') then [Lit ''- '', Str (get ev ''region'')] else [Lit []])
             @ [Lit ''</div>'',
                Lit ''<div class="popup-detail">Date: '', or_else (get ev ''date'') (Lit []), Lit ''</div>'']
             @ (if truthy (get ev ''fatalities'')
                then [Lit ''<div class="popup-detail">Fatalities: '', Str (get ev ''fatalities''), Lit ''</div>'']
                else [Lit []]))))\<close>

subsection \<open>The update functions\<close>

definition updateEarthquakes :: "platform \<Rightarrow> jsval \<Rightarrow> map_state \<Rightarrow> map_state \<times> js_error option" where
  "updateEarthquakes pf = update_group ''earthquakes'' (earthquake_layer pf)"

definition updateConflictZones :: "platform \<Rightarrow> jsval \<Rightarrow> map_state \<Rightarrow> map_state \<times> js_error option" where
  "updateConflictZones pf = update_group ''conflicts'' (conflict_zone_layer pf)"

definition updateHotspots :: "platform \<Rightarrow> jsval \<Rightarrow> map_state \<Rightarrow> map_state \<times> js_error option" where
  "updateHotspots pf = update_group ''hotspots'' (hotspot_layer pf)"

definition updateBases :: "platform \<Rightarrow> jsval \<Rightarrow> map_state \<Rightarrow> map_state \<times> js_error option" where
  "updateBases pf = update_group ''bases'' (base_layer pf)"

definition updateNuclear :: "platform \<Rightarrow> jsval \<Rightarrow> map_state \<Rightarrow> map_state \<times> js_error option" where
  "updateNuclear pf = update_group ''nuclear'' (nuclear_layer pf)"

definition updateWaterways :: "platform \<Rightarrow> jsval \<Rightarrow> map_state \<Rightarrow> map_state \<times> js_error option" where
  "updateWaterways pf = update_group ''waterways'' (waterway_layer pf)"

definition updateCables :: "platform \<Rightarrow> jsval \<Rightarrow> map_state \<Rightarrow> map_state \<times> js_error option" where
  "updateCables pf = update_group ''cables'' (cable_layer pf)"

definition updateDisasters :: "platform \<Rightarrow> jsval \<Rightarrow> map_state \<Rightarrow> map_state \<times> js_error option" where
  "updateDisasters pf = update_group ''disasters'' (disaster_layer pf)"

text \<open>
  \<open>updateConflictEvents\<close> collects its markers in a marker cluster group of its own and
  adds that one layer to the group after the loop; an exception in the loop leaves the
  group cleared.
\<close>

definition add_to_cluster :: "platform \<Rightarrow> jsval \<Rightarrow> layer list \<Rightarrow> layer list \<times> js_error option" where
  "add_to_cluster pf ev cluster =
     (case conflict_event_layer pf ev of
        Inl e \<Rightarrow> (cluster, Some e)
      | Inr None \<Rightarrow> (cluster, None)
      | Inr (Some l) \<Rightarrow> (cluster @ [l], None))"

definition updateConflictEvents :: "platform \<Rightarrow> jsval \<Rightarrow> map_state \<Rightarrow> map_state \<times> js_error option" where
  "updateConflictEvents pf data s =
     (case layerGroups s ''conflict-events'' of
        None \<Rightarrow> (s, Some TypeError)
      | Some old \<Rightarrow>
          (case forEach_js (add_to_cluster pf) data [] of
             (cluster, Some e) \<Rightarrow> (clearLayers ''conflict-events'' s, Some e)
           | (cluster, None) \<Rightarrow>
               (addLayer ''conflict-events'' (MarkerCluster cluster) (clearLayers ''conflict-events'' s), None)))"

subsection \<open>Loading a layer on demand\<close>

text \<open>
  The network is the environment: \<open>fetch(url)\<close> rejects with an error or resolves with a
  response, whose \<open>json()\<close> rejects or resolves with the parsed value. A URL is its
  path and its query parameters, before \<open>encodeURIComponent\<close>.
\<close>

type_synonym url = "string \<times> (string \<times> string) list"

type_synonym network = "url \<Rightarrow> js_error + (js_error + jsval)"

definition plain :: "string \<Rightarrow> url" where
  "plain path = (path, [])"

definition fetch_json :: "network \<Rightarrow> url \<Rightarrow> js_error + jsval" where
  "fetch_json net u = (case net u of Inl e \<Rightarrow> Inl e | Inr r \<Rightarrow> r)"

definition layer_urls :: "(string \<times> string) list" where
  "layer_urls =
     [(''bases'', ''/api/layers/military-bases''),
      (''nuclear'', ''/api/layers/nuclear''),
      (''waterways'', ''/api/layers/waterways''),
      (''cables'', ''/api/layers/cables''),
      (''disasters'', ''/api/disasters''),
      (''conflict-events'', ''/api/conflicts'')]"

definition dispatch_layer :: "platform \<Rightarrow> string \<Rightarrow> jsval \<Rightarrow> map_state \<Rightarrow> map_state \<times> js_error option" where
  "dispatch_layer pf name data s =
     (if name = ''bases'' then updateBases pf data s
      else if name = ''nuclear'' then updateNuclear pf data s
      else if name = ''waterways'' then updateWaterways pf data s
      else if name = ''cables'' then updateCables pf data s
      else if name = ''disasters'' then updateDisasters pf data s
      else if name = ''conflict-events'' then updateConflictEvents pf data s
      else (s, None))"

text \<open>
  \<open>loadLayerData(name)\<close>, for a layer name, returns the module state once its promise
  chain has settled, and the URLs it requested. The chain has no \<open>catch\<close>: a rejection
  is dropped.
\<close>

definition loadLayerData :: "platform \<Rightarrow> network \<Rightarrow> string \<Rightarrow> map_state \<Rightarrow> map_state \<times> url list" where
  "loadLayerData pf net name s =
     (case map_of layer_urls name of
        None \<Rightarrow> (s, [])
      | Some path \<Rightarrow>
          (case fetch_json net (plain path) of
             Inl e \<Rightarrow> (s, [plain path])
           | Inr data \<Rightarrow> (fst (dispatch_layer pf name data s), [plain path])))"

text \<open>
  The change handler of a layer checkbox: a checked box shows the group and loads its data
  when the group is empty; an unchecked box hides the group. The result is the state, the
  URLs requested and the exception thrown, if any (the group does not exist before
  \<open>init\<close>).
\<close>

definition layer_toggled :: "platform \<Rightarrow> network \<Rightarrow> string \<Rightarrow> bool \<Rightarrow> map_state \<Rightarrow> (map_state \<times> url list) \<times> js_error option" where
  "layer_toggled pf net layerName checked s =
     (case layerGroups s layerName of
        None \<Rightarrow> ((s, []), Some TypeError)
      | Some ls \<Rightarrow>
          if checked then
            (let s1 = s\<lparr> on_map := (if layerName \<in> set (on_map s) then on_map s
                                     else on_map s @ [layerName]) \<rparr>
             in if length ls = 0 then (loadLayerData pf net layerName s1, None)
                else ((s1, []), None))
          else ((s\<lparr> on_map := removeAll layerName (on_map s) \<rparr>, []), None))"

section \<open>The dashboard module (static/js/dashboard.js)\<close>

text \<open>
  The page is the template of the application: every element the module looks up exists.
  \<open>content\<close> gives, for an element id, what was last assigned to its \<open>innerHTML\<close> or
  \<open>textContent\<close>: the list of the fragments that \<open>join('')\<close> concatenates.
  \<open>requests\<close> logs the URLs passed to \<open>fetch\<close>, \<open>timers\<close> the calls of
  \<open>setInterval\<close>. The value of the source filter is read from the page and is a
  parameter of the functions that read it. A call is followed until the promises it
  started have settled, no other event being handled in between.
\<close>

datatype callback = ClockUpdate | LoadAllData

record dashboard =
  world_map :: map_state
  content :: "string \<Rightarrow> html list"
  alertsOnly :: bool
  connected :: bool
  requests :: "url list"
  timers :: "(callback \<times> nat) list"

definition REFRESH_INTERVAL :: nat where
  "REFRESH_INTERVAL = 180000"

definition set_html :: "string \<Rightarrow> html list \<Rightarrow> dashboard \<Rightarrow> dashboard" where
  "set_html ident frags st = st\<lparr> content := (content st)(ident := frags) \<rparr>"

definition loading :: "string \<Rightarrow> html list" where
  \<open>loading msg = [[Lit ''<div class="loading">'', Lit msg, Lit ''</div>'']]\<close>

text \<open>Statements in sequence: an exception ends the sequence and keeps the state reached.\<close>

definition then_do :: "('s \<Rightarrow> 's \<times> js_error option) \<Rightarrow> ('s \<Rightarrow> 's \<times> js_error option) \<Rightarrow> 's \<Rightarrow> 's \<times> js_error option" where
  "then_do f g s = (case f s of (s', None) \<Rightarrow> g s' | (s', Some e) \<Rightarrow> (s', Some e))"

text \<open>\<open>xs.map(f)\<close> with a callback that may throw.\<close>

fun map_js :: "(jsval \<Rightarrow> js_error + 'b) \<Rightarrow> jsval list \<Rightarrow> js_error + 'b list" where
  "map_js f [] = Inr []"
| "map_js f (x # xs) =
     (case f x of
        Inl e \<Rightarrow> Inl e
      | Inr y \<Rightarrow> (case map_js f xs of Inl e \<Rightarrow> Inl e | Inr ys \<Rightarrow> Inr (y # ys)))"

text \<open>\<open>xs.filter(p)\<close> with a callback that may throw.\<close>

fun filter_js :: "(jsval \<Rightarrow> js_error + bool) \<Rightarrow> jsval list \<Rightarrow> js_error + jsval list" where
  "filter_js p [] = Inr []"
| "filter_js p (x # xs) =
     (case p x of
        Inl e \<Rightarrow> Inl e
      | Inr b \<Rightarrow> (case filter_js p xs of Inl e \<Rightarrow> Inl e | Inr ys \<Rightarrow> Inr (if b then x # ys else ys)))"

subsection \<open>Helpers\<close>

definition escapeHtml :: "jsval \<Rightarrow> html_text" where
  "escapeHtml text = (if \<not> truthy text then Lit [] else Esc text)"

definition formatTime :: "jsval \<Rightarrow> html_text" where
  "formatTime isoStr = (if \<not> truthy isoStr then Lit [] else Time isoStr)"

definition apostrophe :: html_text where
  "apostrophe = Lit [CHR 0x27]"

text \<open>The callback \<open>d => d.is_alert\<close>, read as a condition.\<close>

definition is_alert :: "jsval \<Rightarrow> js_error + bool" where
  "is_alert d = (if nullish d then Inl TypeError else Inr (truthy (get d ''is_alert'')))"

subsection \<open>News\<close>

definition news_url :: "string \<Rightarrow> bool \<Rightarrow> url" where
  "news_url source alerts =
     (''/api/news'',
      [(''limit'', ''200'')]
      @ (if source \<noteq> [] then [(''source'', source)] else [])
      @ (if alerts then [(''alerts'', ''true'')] else []))"

text \<open>The template literal of one news item.\<close>

definition news_card :: "jsval \<Rightarrow> html" where
  \<open>news_card item =
        ([Lit ''<div class="news-item '', Lit (if truthy (get item ''is_alert'') then ''alert'' else []),
          Lit ''" onclick="window.open('', apostrophe, escapeHtml (get item ''link''), apostrophe,
          Lit '', '', apostrophe, Lit ''_blank'', apostrophe, Lit '')">'',
          Lit ''<div class="news-source">'', escapeHtml (get item ''source''), Lit ''</div>'',
          Lit ''<div class="news-title">'', escapeHtml (get item ''title''), Lit ''</div>'',
          Lit ''<div class="news-time">'', formatTime (get item ''published''), Lit ''</div>'']
         @ (if truthy (get item ''summary'')
            then [Lit ''<div class="news-summary">'', escapeHtml (get item ''summary''), Lit ''</div>'']
            else [Lit []])
         @ [Lit ''</div>''])\<close>

text \<open>The callback of \<open>map\<close> in \<open>renderNews\<close>: reading a field of a null item throws.\<close>

definition news_item :: "jsval \<Rightarrow> js_error + html" where
  "news_item item = (if nullish item then Inl TypeError else template (news_card item))"

definition renderNews :: "jsval \<Rightarrow> dashboard \<Rightarrow> dashboard \<times> js_error option" where
  "renderNews items st =
     (if nullish items then (st, Some TypeError)
      else if \<not> truthy (get items ''length'') then
        (set_html ''news-list'' (loading ''No news available'') st, None)
      else case items of
        JArr xs \<Rightarrow>
          (case map_js news_item (take 100 xs) of
             Inl e \<Rightarrow> (st, Some e)
           | Inr cards \<Rightarrow> (set_html ''news-list'' cards st, None))
      | _ \<Rightarrow> (st, Some TypeError))"

text \<open>The template literal of one alert.\<close>

definition alert_card :: "jsval \<Rightarrow> html" where
  \<open>alert_card item =
        [Lit ''<div class="news-item alert" onclick="window.open('', apostrophe,
         escapeHtml (get item ''link''), apostrophe,
         Lit '', '', apostrophe, Lit ''_blank'', apostrophe, Lit '')">'',
         Lit ''<div class="news-source">'', escapeHtml (get item ''source''), Lit ''</div>'',
         Lit ''<div class="news-title">'', escapeHtml (get item ''title''), Lit ''</div>'',
         Lit ''<div class="news-time">'', formatTime (get item ''published''), Lit ''</div>'',
         Lit ''</div>'']\<close>

text \<open>The callback of \<open>map\<close> in \<open>renderAlerts\<close>.\<close>

definition alert_item :: "jsval \<Rightarrow> js_error + html" where
  "alert_item item = (if nullish item then Inl TypeError else template (alert_card item))"

definition renderAlerts :: "jsval \<Rightarrow> dashboard \<Rightarrow> dashboard \<times> js_error option" where
  "renderAlerts items st =
     (if nullish items then (st, Some TypeError)
      else if \<not> truthy (get items ''length'') then
        (set_html ''alerts-list'' (loading ''No active alerts'') st, None)
      else case items of
        JArr xs \<Rightarrow>
          (case map_js alert_item xs of
             Inl e \<Rightarrow> (st, Some e)
           | Inr cards \<Rightarrow> (set_html ''alerts-list'' cards st, None))
      | _ \<Rightarrow> (st, Some TypeError))"

text \<open>The template literal of one ticker entry.\<close>

definition ticker_span :: "jsval \<Rightarrow> html" where
  \<open>ticker_span item =
        [Lit ''<span class="'', Lit (if truthy (get item ''is_alert'') then ''ticker-alert'' else []),
         Lit ''">'', escapeHtml (get item ''title''), Lit ''</span><span class="ticker-sep">|</span>'']\<close>

text \<open>The callback of \<open>map\<close> in \<open>renderTicker\<close>.\<close>

definition ticker_item :: "jsval \<Rightarrow> js_error + html" where
  "ticker_item item = (if nullish item then Inl TypeError else template (ticker_span item))"

definition renderTicker :: "jsval \<Rightarrow> dashboard \<Rightarrow> dashboard \<times> js_error option" where
  "renderTicker items st =
     (case items of
        JArr xs \<Rightarrow>
          (case filter_js is_alert xs of
             Inl e \<Rightarrow> (st, Some e)
           | Inr alerts \<Rightarrow>
               (let alertItems = take 10 alerts;
                    regularItems = take 15 xs;
                    all = alertItems @ regularItems
                in case map_js ticker_item all of
                     Inl e \<Rightarrow> (st, Some e)
                   | Inr spans \<Rightarrow> (set_html ''ticker-content'' spans st, None)))
      | _ \<Rightarrow> (st, Some TypeError))"

definition source_of :: "jsval \<Rightarrow> js_error + jsval" where
  "source_of i = (if nullish i then Inl TypeError else Inr (get i ''source''))"

definition source_options :: "string \<Rightarrow> jsval list \<Rightarrow> html" where
  \<open>source_options current sources =
     [Lit ''<option value="">All Sources</option>'', Options sources current]\<close>

definition updateSourceFilter :: "string \<Rightarrow> jsval \<Rightarrow> dashboard \<Rightarrow> dashboard \<times> js_error option" where
  "updateSourceFilter current items st =
     (case items of
        JArr xs \<Rightarrow>
          (case map_js source_of xs of
             Inl e \<Rightarrow> (st, Some e)
           | Inr sources \<Rightarrow>
               (case template (source_options current sources) of
                  Inl e \<Rightarrow> (st, Some e)
                | Inr options \<Rightarrow> (set_html ''news-source-filter'' [options] st, None)))
      | _ \<Rightarrow> (st, Some TypeError))"

text \<open>\<open>document.getElementById(ident).textContent = data.length\<close>\<close>

definition set_count :: "string \<Rightarrow> jsval \<Rightarrow> dashboard \<Rightarrow> dashboard \<times> js_error option" where
  "set_count ident data st =
     (if nullish data then (st, Some TypeError)
      else case template [Str (get data ''length'')] of
        Inl e \<Rightarrow> (st, Some e)
      | Inr text \<Rightarrow> (set_html ident [text] st, None))"

text \<open>\<open>renderAlerts(data.filter(d => d.is_alert))\<close>\<close>

definition render_alerts_of :: "jsval \<Rightarrow> dashboard \<Rightarrow> dashboard \<times> js_error option" where
  "render_alerts_of data st =
     (case data of
        JArr xs \<Rightarrow>
          (case filter_js is_alert xs of
             Inl e \<Rightarrow> (st, Some e)
           | Inr alerts \<Rightarrow> renderAlerts (JArr alerts) st)
      | _ \<Rightarrow> (st, Some TypeError))"

text \<open>The callback of \<open>loadNews\<close> that receives the parsed response.\<close>

definition news_loaded :: "string \<Rightarrow> jsval \<Rightarrow> dashboard \<Rightarrow> dashboard \<times> js_error option" where
  "news_loaded source data =
     then_do (renderNews data)
    (then_do (render_alerts_of data)
    (then_do (renderTicker data)
    (then_do (updateSourceFilter source data)
             (set_count ''stat-news'' data))))"

subsection \<open>Promise chains\<close>

text \<open>
  A chain is followed until it has settled: the result is the state reached and the reason
  of the rejection, \<open>None\<close> when the promise is fulfilled.
  \<open>fetch_then net u cb\<close> is \<open>fetch(u).then(r => r.json()).then(cb)\<close>: a rejected
  \<open>fetch\<close> or \<open>json\<close> skips the callback.
\<close>

definition fetch_then :: "network \<Rightarrow> url \<Rightarrow> (jsval \<Rightarrow> dashboard \<Rightarrow> dashboard \<times> js_error option) \<Rightarrow> dashboard \<Rightarrow> dashboard \<times> js_error option" where
  "fetch_then net u cb st =
     (let st1 = st\<lparr> requests := requests st @ [u] \<rparr>
      in case fetch_json net u of
           Inl e \<Rightarrow> (st1, Some e)
         | Inr data \<Rightarrow> cb data st1)"

text \<open>\<open>p.catch(h)\<close>: the handler runs on a rejection and may itself throw.\<close>

definition catch_do :: "('s \<Rightarrow> 's \<times> js_error option) \<Rightarrow> (js_error \<Rightarrow> 's \<Rightarrow> 's \<times> js_error option) \<Rightarrow> 's \<Rightarrow> 's \<times> js_error option" where
  "catch_do p h s = (case p s of (s', None) \<Rightarrow> (s', None) | (s', Some e) \<Rightarrow> h e s')"

text \<open>
  \<open>Promise.all\<close>: every promise of the list runs to its end; the result is rejected when
  one of them is. The promises are followed in the order of the list.
\<close>

fun promise_all :: "('s \<Rightarrow> 's \<times> js_error option) list \<Rightarrow> 's \<Rightarrow> 's \<times> js_error option" where
  "promise_all [] s = (s, None)"
| "promise_all (p # ps) s =
     (case p s of
        (s1, r1) \<Rightarrow>
          (case promise_all ps s1 of
             (s2, r2) \<Rightarrow> (s2, case r1 of Some e \<Rightarrow> Some e | None \<Rightarrow> r2)))"

text \<open>A handler that only logs to the console, or does nothing.\<close>

definition log_only :: "js_error \<Rightarrow> 's \<Rightarrow> 's \<times> js_error option" where
  "log_only err s = (s, None)"

subsection \<open>The load functions\<close>

definition news_failed :: "js_error \<Rightarrow> dashboard \<Rightarrow> dashboard \<times> js_error option" where
  "news_failed err st = (set_html ''news-list'' (loading ''Failed to load news'') st, None)"

definition loadNews :: "network \<Rightarrow> string \<Rightarrow> dashboard \<Rightarrow> dashboard \<times> js_error option" where
  "loadNews net source st =
     catch_do (fetch_then net (news_url source (alertsOnly st)) (news_loaded source)) news_failed st"

text \<open>A call into the map module.\<close>

definition in_world_map :: "(map_state \<Rightarrow> map_state \<times> js_error option) \<Rightarrow> dashboard \<Rightarrow> dashboard \<times> js_error option" where
  "in_world_map f st = (case f (world_map st) of (m, r) \<Rightarrow> (st\<lparr> world_map := m \<rparr>, r))"

definition loadEarthquakes :: "platform \<Rightarrow> network \<Rightarrow> dashboard \<Rightarrow> dashboard \<times> js_error option" where
  "loadEarthquakes pf net =
     catch_do (fetch_then net (plain ''/api/earthquakes'')
       (\<lambda>data. then_do (in_world_map (updateEarthquakes pf data)) (set_count ''stat-earthquakes'' data)))
       log_only"

definition loadConflictZones :: "platform \<Rightarrow> network \<Rightarrow> dashboard \<Rightarrow> dashboard \<times> js_error option" where
  "loadConflictZones pf net =
     catch_do (fetch_then net (plain ''/api/layers/conflict-zones'')
       (\<lambda>data. in_world_map (updateConflictZones pf data)))
       log_only"

definition loadHotspots :: "platform \<Rightarrow> network \<Rightarrow> dashboard \<Rightarrow> dashboard \<times> js_error option" where
  "loadHotspots pf net =
     catch_do (fetch_then net (plain ''/api/layers/hotspots'')
       (\<lambda>data. in_world_map (updateHotspots pf data)))
       log_only"

text \<open>The template literal of one GDELT event.\<close>

definition gdelt_card :: "jsval \<Rightarrow> html" where
  \<open>gdelt_card item =
        [Lit ''<div class="gdelt-item" onclick="window.open('', apostrophe,
         escapeHtml (get item ''url''), apostrophe,
         Lit '', '', apostrophe, Lit ''_blank'', apostrophe, Lit '')">'',
         Lit ''<div class="gdelt-source">'',
         escapeHtml (if truthy (get item ''source'') then get item ''source'' else JStr []), Lit ''</div>'',
         Lit ''<div class="gdelt-title">'', escapeHtml (get item ''title''), Lit ''</div>'',
         Lit ''</div>'']\<close>

text \<open>The callback of \<open>map\<close> in \<open>renderGdelt\<close>.\<close>

definition gdelt_item :: "jsval \<Rightarrow> js_error + html" where
  "gdelt_item item = (if nullish item then Inl TypeError else template (gdelt_card item))"

definition renderGdelt :: "jsval \<Rightarrow> dashboard \<Rightarrow> dashboard \<times> js_error option" where
  "renderGdelt items st =
     (if nullish items then (st, Some TypeError)
      else if \<not> truthy (get items ''length'') then
        (set_html ''gdelt-list'' (loading ''No GDELT data available'') st, None)
      else case items of
        JArr xs \<Rightarrow>
          (case map_js gdelt_item (take 50 xs) of
             Inl e \<Rightarrow> (st, Some e)
           | Inr cards \<Rightarrow> (set_html ''gdelt-list'' cards st, None))
      | _ \<Rightarrow> (st, Some TypeError))"

definition gdelt_failed :: "js_error \<Rightarrow> dashboard \<Rightarrow> dashboard \<times> js_error option" where
  "gdelt_failed err st = (set_html ''gdelt-list'' (loading ''Failed to load GDELT data'') st, None)"

definition loadGdelt :: "network \<Rightarrow> dashboard \<Rightarrow> dashboard \<times> js_error option" where
  "loadGdelt net = catch_do (fetch_then net (plain ''/api/gdelt'') renderGdelt) gdelt_failed"

definition loadStats :: "network \<Rightarrow> dashboard \<Rightarrow> dashboard \<times> js_error option" where
  "loadStats net =
     promise_all
       [catch_do (fetch_then net (plain ''/api/conflicts'') (set_count ''stat-conflicts'')) log_only,
        catch_do (fetch_then net (plain ''/api/disasters'') (set_count ''stat-disasters'')) log_only]"

definition updateStatus :: "string \<Rightarrow> dashboard \<Rightarrow> dashboard" where
  "updateStatus text = set_html ''status-text'' [[Lit text]]"

text \<open>
  \<open>loadAllData\<close> starts the six loads and drops its promise; the result is the state
  once all of them have settled and the status line is written.
\<close>

definition loadAllData :: "platform \<Rightarrow> network \<Rightarrow> string \<Rightarrow> dashboard \<Rightarrow> dashboard" where
  "loadAllData pf net source st =
     (case promise_all
             [loadNews net source, loadEarthquakes pf net, loadConflictZones pf net,
              loadHotspots pf net, loadGdelt net, loadStats net]
             (updateStatus ''Refreshing...'' st) of
        (st', None) \<Rightarrow> (updateStatus ''Live'' st')\<lparr> connected := True \<rparr>
      | (st', Some e) \<Rightarrow> updateStatus ''Error'' st')"

subsection \<open>Start-up, timers and buttons\<close>

text \<open>\<open>utc\<close> is the text of the current time, read from the clock of the platform.\<close>

definition clock_update :: "string \<Rightarrow> dashboard \<Rightarrow> dashboard" where
  "clock_update utc = set_html ''clock'' [[Lit utc]]"

definition setInterval :: "callback \<Rightarrow> nat \<Rightarrow> dashboard \<Rightarrow> dashboard" where
  "setInterval cb ms st = st\<lparr> timers := timers st @ [(cb, ms)] \<rparr>"

definition setupClock :: "string \<Rightarrow> dashboard \<Rightarrow> dashboard" where
  "setupClock utc st = setInterval ClockUpdate 1000 (clock_update utc st)"

text \<open>
  \<open>init\<close> on the page as loaded. \<open>setupTabs\<close> and \<open>setupButtons\<close> only register
  handlers, which run on a later event.
\<close>

definition init :: "platform \<Rightarrow> network \<Rightarrow> string \<Rightarrow> string \<Rightarrow> dashboard \<Rightarrow> dashboard" where
  "init pf net source utc page =
     setInterval LoadAllData REFRESH_INTERVAL
       (loadAllData pf net source
         (setupClock utc (page\<lparr> world_map := map_init \<rparr>)))"

text \<open>What a timer runs when it fires.\<close>

fun run_timer :: "platform \<Rightarrow> network \<Rightarrow> string \<Rightarrow> string \<Rightarrow> callback \<Rightarrow> dashboard \<Rightarrow> dashboard" where
  "run_timer pf net source utc ClockUpdate st = clock_update utc st"
| "run_timer pf net source utc LoadAllData st = loadAllData pf net source st"

text \<open>The click handlers of the refresh and the alerts buttons, and the change handler of the source filter.\<close>

definition refresh_clicked :: "platform \<Rightarrow> network \<Rightarrow> string \<Rightarrow> dashboard \<Rightarrow> dashboard" where
  "refresh_clicked pf net source st = loadAllData pf net source st"

definition alerts_clicked :: "network \<Rightarrow> string \<Rightarrow> dashboard \<Rightarrow> dashboard" where
  "alerts_clicked net source st = fst (loadNews net source (st\<lparr> alertsOnly := \<not> alertsOnly st \<rparr>))"

definition source_changed :: "network \<Rightarrow> string \<Rightarrow> dashboard \<Rightarrow> dashboard" where
  "source_changed net source st = fst (loadNews net source st)"

section \<open>The server side, from the specification\<close>

text \<open>
  The Python services (\<open>services/cache.py\<close>, \<open>services/earthquake_service.py\<close>,
  \<open>services/rss_service.py\<close>) are named by the README and are not among the sources at
  hand. The definitions of this section follow the words of the specification. Time is in
  whole seconds.
\<close>

text \<open>
  Modelled from the spec: the errors of section 7, "FetchError (network/non-2xx/timeout),
  ParseError (malformed payload from a source), CacheError (storage read/write failure)".
\<close>

datatype fetch_error = FetchError | ParseError | CacheError

subsection \<open>Cache\<close>







subsection \<open>Earthquake fetcher\<close>

text \<open>
  Modelled from the spec: an event of the upstream GeoJSON feed read by
  \<open>services/earthquake_service.py\<close>, and the normalised EarthquakeEvent.
\<close>

record feature =
  f_mag :: real
  f_place :: string
  f_time :: int
  f_tsunami :: bool
  f_felt :: "nat option"
  f_longitude :: real
  f_latitude :: real
  f_depth :: real

record earthquake_event =
  latitude :: real
  longitude :: real
  magnitude :: real
  depth :: real
  place :: string
  tsunami :: bool
  felt :: "nat option"
  event_time :: int

text \<open>
  Modelled from the spec: the mapping of feature properties to EarthquakeEvent fields in
  \<open>services/earthquake_service.py\<close>.
\<close>

definition to_event :: "feature \<Rightarrow> earthquake_event" where
  "to_event f =
     \<lparr> latitude = f_latitude f, longitude = f_longitude f, magnitude = f_mag f,
       depth = f_depth f, place = f_place f, tsunami = f_tsunami f, felt = f_felt f,
       event_time = f_time f \<rparr>"

text \<open>
  Modelled from the spec: the filter of \<open>services/earthquake_service.py\<close>, "only events
  with magnitude >= 4.5 within the last 24 hours are retained".
\<close>

definition within_last_24h :: "int \<Rightarrow> int \<Rightarrow> bool" where
  "within_last_24h now t \<longleftrightarrow> now - 24 * 3600 \<le> t \<and> t \<le> now"

definition retained :: "int \<Rightarrow> feature \<Rightarrow> bool" where
  "retained now f \<longleftrightarrow> f_mag f \<ge> 4.5 \<and> within_last_24h now (f_time f)"

fun retain_events :: "int \<Rightarrow> feature list \<Rightarrow> earthquake_event list" where
  "retain_events now [] = []"
| "retain_events now (f # fs) =
     (if retained now f then to_event f # retain_events now fs else retain_events now fs)"

text \<open>
  Modelled from the spec: \<open>fetch()\<close> of \<open>services/earthquake_service.py\<close>; "on failure,
  the fetcher returns an empty list".
\<close>

definition fetch_earthquakes :: "int \<Rightarrow> fetch_error + feature list \<Rightarrow> earthquake_event list" where
  "fetch_earthquakes now upstream =
     (case upstream of Inl e \<Rightarrow> [] | Inr feed \<Rightarrow> retain_events now feed)"

subsection \<open>RSS fetcher\<close>

text \<open>
  Modelled from the spec: an item of an upstream feed read by \<open>services/rss_service.py\<close>
  (title, link, published, summary) and the normalised NewsItem.
\<close>

record feed_item =
  fi_title :: string
  fi_link :: string
  fi_published :: int
  fi_summary :: "string option"

record news_record =
  source_name :: string
  title :: string
  link :: string
  published :: int
  summary :: "string option"
  alert :: bool

text \<open>
  Modelled from the spec: the alert tagging of \<open>services/rss_service.py\<close>, "true iff
  title/summary matches a configured alert keyword list, case-insensitive substring match".
\<close>

definition lower :: "char \<Rightarrow> char" where
  "lower c =
     (let n = (of_char c :: nat) in if 65 \<le> n \<and> n \<le> 90 then char_of (n + 32) else c)"

fun contains :: "string \<Rightarrow> string \<Rightarrow> bool" where
  "contains [] k = (k = [])"
| "contains (c # cs) k = (take (length k) (c # cs) = k \<or> contains cs k)"

definition matches_alert :: "string list \<Rightarrow> string \<Rightarrow> string option \<Rightarrow> bool" where
  "matches_alert keywords t s =
     list_ex (\<lambda>k. contains (map lower t) (map lower k)
                 \<or> (case s of None \<Rightarrow> False | Some text \<Rightarrow> contains (map lower text) (map lower k)))
       keywords"

definition to_news :: "string list \<Rightarrow> string \<Rightarrow> feed_item \<Rightarrow> news_record" where
  "to_news keywords name i =
     \<lparr> source_name = name, title = fi_title i, link = fi_link i, published = fi_published i,
       summary = fi_summary i, alert = matches_alert keywords (fi_title i) (fi_summary i) \<rparr>"

text \<open>
  Modelled from the spec: \<open>fetch()\<close> of \<open>services/rss_service.py\<close>. A configured source
  is a name and a URL; the upstream gives, for a URL, the parsed items or a failure. The
  fetcher "concatenates all sources' items into one list"; a source that fails adds none.
\<close>

fun fetch_rss :: "string list \<Rightarrow> (string \<Rightarrow> fetch_error + feed_item list) \<Rightarrow> (string \<times> string) list \<Rightarrow> news_record list" where
  "fetch_rss keywords upstream [] = []"
| "fetch_rss keywords upstream ((name, u) # sources) =
     (case upstream u of
        Inl e \<Rightarrow> fetch_rss keywords upstream sources
      | Inr items \<Rightarrow> map (to_news keywords name) items @ fetch_rss keywords upstream sources)"

section \<open>Notions used in the statements\<close>

text \<open>
  What a loop over the records adds to an empty group: the layers built up to the first
  exception, and that exception.
\<close>

fun built :: "(jsval \<Rightarrow> js_error + layer option) \<Rightarrow> jsval list \<Rightarrow> layer list \<times> js_error option" where
  "built build [] = ([], None)"
| "built build (x # xs) =
     (case build x of
        Inl e \<Rightarrow> ([], Some e)
      | Inr None \<Rightarrow> built build xs
      | Inr (Some l) \<Rightarrow> (case built build xs of (ls, r) \<Rightarrow> (l # ls, r)))"

text \<open>The layers of a group, none when the group does not exist.\<close>

definition group_layers :: "map_state \<Rightarrow> string \<Rightarrow> layer list" where
  "group_layers s name = (case layerGroups s name of None \<Rightarrow> [] | Some ls \<Rightarrow> ls)"

text \<open>The coordinates of a marker; the markers inside a cluster.\<close>

fun marker_at :: "layer \<Rightarrow> (jsval \<times> jsval) option" where
  "marker_at (Marker lat lng ic popup) = Some (lat, lng)"
| "marker_at l = None"

fun clustered :: "layer \<Rightarrow> layer list" where
  "clustered (MarkerCluster ls) = ls"
| "clustered l = []"

fun polyline_points :: "layer \<Rightarrow> (jsval \<times> jsval) list option" where
  "polyline_points (Polyline pts popup) = Some pts"
| "polyline_points l = None"

text \<open>The coordinates read from a record.\<close>

definition coords :: "jsval \<Rightarrow> jsval \<times> jsval" where
  "coords d = (get d ''lat'', get d ''lng'')"

text \<open>An item that the server has marked as an alert.\<close>

definition flagged :: "jsval \<Rightarrow> bool" where
  "flagged d \<longleftrightarrow> truthy (get d ''is_alert'')"

text \<open>A page whose elements are empty, before \<open>init\<close>.\<close>

definition empty_page :: dashboard where
  "empty_page =
     \<lparr> world_map = \<lparr> layerGroups = (\<lambda>name. None), on_map = [] \<rparr>,
       content = (\<lambda>ident. []), alertsOnly = False, connected = False, requests = [], timers = [] \<rparr>"

text \<open>
  A record as the server sends it: an object each of whose fields can be converted to a
  string.
\<close>

fun plain_record :: "jsval \<Rightarrow> bool" where
  "plain_record (JObj kvs) = list_all (\<lambda>kv. stringifiable (snd kv)) kvs"
| "plain_record v = False"

text \<open>A JSON number.\<close>

fun is_number :: "jsval \<Rightarrow> bool" where
  "is_number (JNum n) = True"
| "is_number v = False"

text \<open>
  A record with a position: a record as the server sends it whose \<open>lat\<close> and \<open>lng\<close>
  are numbers.
\<close>

definition located_record :: "jsval \<Rightarrow> bool" where
  "located_record d \<longleftrightarrow> plain_record d \<and> is_number (get d ''lat'') \<and> is_number (get d ''lng'')"

text \<open>
  The records for which the guard of \<open>updateDisasters\<close> returns: both coordinates are
  the number 0. The records for which the guard of \<open>updateConflictEvents\<close> returns: a
  coordinate is falsy.
\<close>

definition skipped_disaster :: "jsval \<Rightarrow> bool" where
  "skipped_disaster d \<longleftrightarrow> \<not> nullish d \<and> get d ''lat'' = JNum 0 \<and> get d ''lng'' = JNum 0"

definition skipped_conflict_event :: "jsval \<Rightarrow> bool" where
  "skipped_conflict_event ev \<longleftrightarrow> \<not> nullish ev \<and> \<not> (truthy (get ev ''lat'') \<and> truthy (get ev ''lng''))"

text \<open>Every layer group exists: \<open>init\<close> has run.\<close>

definition initialised :: "map_state \<Rightarrow> bool" where
  "initialised s \<longleftrightarrow> list_all (\<lambda>name. layerGroups s name \<noteq> None) layerNames"

text \<open>The points of a cable record, none when the field is not an array.\<close>

definition points_of :: "jsval \<Rightarrow> jsval list" where
  "points_of cable = (case get cable ''points'' of JArr ps \<Rightarrow> ps | _ \<Rightarrow> [])"

text \<open>A point as the server sends it: an array that starts with two numbers.\<close>

fun numeric_point :: "jsval \<Rightarrow> bool" where
  "numeric_point (JArr (JNum a # JNum b # rest)) = True"
| "numeric_point p = False"

text \<open>
  A cable record as the server sends it: a record whose \<open>points\<close> field is absent, or is
  an array of such points.
\<close>

definition wf_cable :: "jsval \<Rightarrow> bool" where
  "wf_cable cable \<longleftrightarrow>
     plain_record cable \<and>
     (case get cable ''points'' of
        JArr ps \<Rightarrow> list_all numeric_point ps
      | JUndefined \<Rightarrow> True
      | JNull \<Rightarrow> True
      | _ \<Rightarrow> False)"

text \<open>
  A platform for the samples, whose data hold numbers only: no string reads as a number
  and no list of rings is refused.
\<close>

definition sample_platform :: platform where
  "sample_platform = \<lparr> toNumber = (\<lambda>v. None), rings = (\<lambda>latlngs. None) \<rparr>"

text \<open>A JSON boolean.\<close>

fun is_boolean :: "jsval \<Rightarrow> bool" where
  "is_boolean (JBool b) = True"
| "is_boolean v = False"

text \<open>Sample data: fifteen alert items with different titles; two items, the first an alert.\<close>

definition fifteen_alerts :: "jsval list" where
  "fifteen_alerts =
     map (\<lambda>t. JObj [(''title'', JStr t), (''is_alert'', JBool True)])
       [''a'', ''b'', ''c'', ''d'', ''e'', ''f'', ''g'', ''h'', ''i'', ''j'', ''k'', ''l'', ''m'', ''n'', ''o'']"

definition two_items :: "jsval list" where
  "two_items =
     [JObj [(''title'', JStr ''a''), (''is_alert'', JBool True)],
      JObj [(''title'', JStr ''b''), (''is_alert'', JBool False)]]"

text \<open>A network that serves one cable of two points, and empty arrays elsewhere.\<close>

definition cable_network :: network where
  "cable_network =
     (\<lambda>u. if u = plain ''/api/layers/cables''
          then Inr (Inr (JArr [JObj [(''name'', JStr ''A''),
                  (''points'', JArr [JArr [JNum 1, JNum 2], JArr [JNum 3, JNum 4]])]]))
          else Inr (Inr (JArr [])))"

text \<open>The requests that one firing of the refresh timer adds to the log.\<close>

definition tick_requests :: "platform \<Rightarrow> network \<Rightarrow> string \<Rightarrow> string \<Rightarrow> dashboard \<Rightarrow> url list" where
  "tick_requests pf net source utc st =
     drop (length (requests st)) (requests (run_timer pf net source utc LoadAllData st))"

text \<open>The items a configured source delivers, none when its fetch fails; whether it succeeds.\<close>

definition items_of :: "(string \<Rightarrow> fetch_error + feed_item list) \<Rightarrow> string \<times> string \<Rightarrow> feed_item list" where
  "items_of upstream src = (case upstream (snd src) of Inl e \<Rightarrow> [] | Inr items \<Rightarrow> items)"

definition succeeded :: "(string \<Rightarrow> fetch_error + feed_item list) \<Rightarrow> string \<times> string \<Rightarrow> bool" where
  "succeeded upstream src = (case upstream (snd src) of Inl e \<Rightarrow> False | Inr items \<Rightarrow> True)"

text \<open>Sample data: sixteen sources, of which the third fails while the others deliver two items each.\<close>

definition sixteen_sources :: "(string \<times> string) list" where
  "sixteen_sources = map (\<lambda>c. ([c], ''http://feeds/'' @ [c])) ''abcdefghijklmnop''"

definition one_down :: "string \<Rightarrow> fetch_error + feed_item list" where
  "one_down u =
     (if u = ''http://feeds/c'' then Inl FetchError
      else Inr [\<lparr> fi_title = u, fi_link = u, fi_published = 0, fi_summary = None \<rparr>,
                \<lparr> fi_title = ''second'', fi_link = u, fi_published = 1, fi_summary = None \<rparr>])"


definition small_quake :: feature where
  "small_quake = \<lparr> f_mag = 3.0, f_place = ''A'', f_time = 1000, f_tsunami = False, f_felt = None,
     f_longitude = 1, f_latitude = 2, f_depth = 10 \<rparr>"

definition big_quake :: feature where
  "big_quake = \<lparr> f_mag = 5.2, f_place = ''B'', f_time = 2000, f_tsunami = False, f_felt = Some 3,
     f_longitude = 3, f_latitude = 4, f_depth = 20 \<rparr>"

section \<open>Properties of the map module\<close>

subsection \<open>What an update function leaves in its group\<close>

lemma forEach_add_to_group:
  "layerGroups s name = Some g \<Longrightarrow>
   forEach (add_to_group name build) xs s =
     (s\<lparr> layerGroups := (layerGroups s)(name \<mapsto> g @ fst (built build xs)) \<rparr>, snd (built build xs))"
proof (induction xs arbitrary: s g)
  case Nil
  then show ?case by (simp add: fun_upd_idem)
next
  case (Cons x xs)
  show ?case
  proof (cases "build x")
    case (Inl e)
    with Cons.prems show ?thesis by (simp add: add_to_group_def fun_upd_idem)
  next
    case (Inr o1)
    show ?thesis
    proof (cases o1)
      case None
      with Inr Cons show ?thesis by (simp add: add_to_group_def)
    next
      case (Some l)
      have g': "layerGroups (addLayer name l s) name = Some (g @ [l])"
        using Cons.prems by (simp add: addLayer_def)
      have "forEach (add_to_group name build) (x # xs) s = forEach (add_to_group name build) xs (addLayer name l s)"
        using Inr Some by (simp add: add_to_group_def)
      also have "\<dots> = ((addLayer name l s)\<lparr> layerGroups := (layerGroups (addLayer name l s))(name \<mapsto> (g @ [l]) @ fst (built build xs)) \<rparr>, snd (built build xs))"
        by (rule Cons.IH [OF g'])
      also have "\<dots> = (s\<lparr> layerGroups := (layerGroups s)(name \<mapsto> g @ fst (built build (x # xs))) \<rparr>, snd (built build (x # xs)))"
        using Inr Some by (cases "built build xs") (simp add: addLayer_def)
      finally show ?thesis .
    qed
  qed
qed

lemma update_group_arr:
  "layerGroups s name = Some old \<Longrightarrow>
   update_group name build (JArr xs) s =
     (s\<lparr> layerGroups := (layerGroups s)(name \<mapsto> fst (built build xs)) \<rparr>, snd (built build xs))"
  using forEach_add_to_group [of "clearLayers name s" name "[]" build xs]
  by (simp add: update_group_def forEach_js_def clearLayers_def)

lemma update_group_not_arr:
  "layerGroups s name = Some old \<Longrightarrow> \<forall>xs. data \<noteq> JArr xs \<Longrightarrow>
   update_group name build data s = (clearLayers name s, Some TypeError)"
  by (cases data) (simp_all add: update_group_def forEach_js_def)

lemma update_group_none:
  "layerGroups s name = None \<Longrightarrow> update_group name build data s = (s, Some TypeError)"
  by (simp add: update_group_def)



lemma update_group_layers:
  assumes "layerGroups s name = Some old"
  shows "group_layers (fst (update_group name build data s)) name =
     (case data of JArr xs \<Rightarrow> fst (built build xs) | _ \<Rightarrow> [])"
proof (cases "\<exists>xs. data = JArr xs")
  case True
  then show ?thesis using assms by (auto simp: update_group_arr group_layers_def)
next
  case False
  then have "update_group name build data s = (clearLayers name s, Some TypeError)"
    using assms by (simp add: update_group_not_arr)
  then show ?thesis using False by (cases data) (simp_all add: group_layers_def clearLayers_def)
qed

lemma forEach_add_to_cluster:
  "forEach (add_to_cluster pf) xs cl =
     (cl @ fst (built (conflict_event_layer pf) xs), snd (built (conflict_event_layer pf) xs))"
proof (induction xs arbitrary: cl)
  case Nil
  show ?case by simp
next
  case (Cons x xs)
  show ?case
  proof (cases "conflict_event_layer pf x")
    case (Inl e)
    then show ?thesis by (simp add: add_to_cluster_def)
  next
    case (Inr o1)
    show ?thesis
    proof (cases o1)
      case None
      then have "add_to_cluster pf x cl = (cl, None)" using Inr by (simp add: add_to_cluster_def)
      then show ?thesis using Inr None by (simp add: Cons.IH)
    next
      case (Some l)
      then have "add_to_cluster pf x cl = (cl @ [l], None)" using Inr by (simp add: add_to_cluster_def)
      then show ?thesis using Inr Some
        by (cases "built (conflict_event_layer pf) xs") (simp add: Cons.IH)
    qed
  qed
qed

lemma updateConflictEvents_arr:
  "layerGroups s ''conflict-events'' = Some old \<Longrightarrow>
   updateConflictEvents pf (JArr xs) s =
     (case snd (built (conflict_event_layer pf) xs) of
        Some e \<Rightarrow> (s\<lparr> layerGroups := (layerGroups s)(''conflict-events'' \<mapsto> []) \<rparr>, Some e)
      | None \<Rightarrow> (s\<lparr> layerGroups := (layerGroups s)(''conflict-events'' \<mapsto>
                    [MarkerCluster (fst (built (conflict_event_layer pf) xs))]) \<rparr>, None))"
proof -
  assume g: "layerGroups s ''conflict-events'' = Some old"
  have "forEach_js (add_to_cluster pf) (JArr xs) [] =
      (fst (built (conflict_event_layer pf) xs), snd (built (conflict_event_layer pf) xs))"
    by (simp add: forEach_js_def forEach_add_to_cluster)
  then show ?thesis using g
    by (cases "built (conflict_event_layer pf) xs")
       (simp add: updateConflictEvents_def clearLayers_def addLayer_def split: option.splits)
qed





lemma built_all:
  assumes "\<And>x l. build x = Inr (Some l) \<Longrightarrow> P l"
  shows "list_all P (fst (built build xs))"
proof (induction xs)
  case Nil
  show ?case by simp
next
  case (Cons x xs)
  show ?case
  proof (cases "build x")
    case (Inl e)
    then show ?thesis by simp
  next
    case (Inr o1)
    then show ?thesis using Cons assms [of x]
      by (cases o1; cases "built build xs") simp_all
  qed
qed

lemma update_group_all:
  assumes "\<And>x l. build x = Inr (Some l) \<Longrightarrow> P l"
  shows "list_all P (group_layers (fst (update_group name build data s)) name)"
proof (cases "layerGroups s name")
  case None
  then show ?thesis by (simp add: update_group_none group_layers_def)
next
  case (Some old)
  show ?thesis using built_all [of build P, OF assms]
    by (cases data) (simp_all add: update_group_layers [OF Some])
qed

lemma popup_layer_Some:
  "popup_layer mk pieces = Inr (Some l) \<Longrightarrow> l = mk pieces"
  by (auto simp: popup_layer_def template_def split: if_splits)

lemma popup_layer_convertible:
  "list_all convertible pieces \<Longrightarrow> popup_layer mk pieces = Inr (Some (mk pieces))"
  by (simp add: popup_layer_def template_def)

lemma plain_record_get:
  "plain_record d \<Longrightarrow> stringifiable (get d k)"
proof (cases d)
  case (JObj kvs)
  assume "plain_record d"
  then have "\<forall>kv\<in>set kvs. stringifiable (snd kv)" using JObj by (simp add: list_all_iff)
  then show ?thesis using JObj by (auto split: option.splits dest!: map_of_SomeD)
qed simp_all

lemma plain_record_not_nullish: "plain_record d \<Longrightarrow> \<not> nullish d"
  by (cases d) simp_all

lemma plain_records_in:
  "list_all plain_record xs \<Longrightarrow> x \<in> set xs \<Longrightarrow> plain_record x"
  by (simp add: list_all_iff)

lemma toLatLng_numbers: "toLatLng pf (JNum a) (JNum b) = None"
  by (simp add: toLatLng_def LatLng_def isNaN_def to_number_def)

lemma L_marker_located:
  "located_record d \<Longrightarrow> L_marker pf (get d ''lat'') (get d ''lng'') = None"
  by (cases "get d ''lat''"; cases "get d ''lng''")
     (simp_all add: located_record_def L_marker_def toLatLng_numbers)

lemma located_record_plain: "located_record d \<Longrightarrow> plain_record d"
  by (simp add: located_record_def)

lemma icon_arg_plain: "plain_record d \<Longrightarrow> icon_arg (get d k) = None"
  by (simp add: icon_arg_def plain_record_get)

lemma disaster_layer_skipped:
  "skipped_disaster d \<Longrightarrow> disaster_layer pf d = Inr None"
  by (simp add: skipped_disaster_def disaster_layer_def)

lemma conflict_event_layer_skipped:
  "skipped_conflict_event ev \<Longrightarrow> conflict_event_layer pf ev = Inr None"
  by (auto simp: skipped_conflict_event_def conflict_event_layer_def)

lemma disaster_layer_marker:
  assumes "located_record d" "\<not> skipped_disaster d"
  shows "\<exists>l. disaster_layer pf d = Inr (Some l) \<and> marker_at l = Some (coords d)"
proof -
  have p: "plain_record d" using assms(1) by (rule located_record_plain)
  have z: "\<not> (get d ''lat'' = JNum 0 \<and> get d ''lng'' = JNum 0)"
    using assms(2) p by (simp add: skipped_disaster_def plain_record_not_nullish)
  show ?thesis using z
    by (simp add: disaster_layer_def coords_def check_def plain_record_not_nullish [OF p]
        icon_arg_plain [OF p] L_marker_located [OF assms(1)] plain_record_get [OF p]
        popup_layer_convertible)
qed

lemma conflict_event_layer_marker:
  assumes "located_record ev" "\<not> skipped_conflict_event ev"
  shows "\<exists>l. conflict_event_layer pf ev = Inr (Some l) \<and> marker_at l = Some (coords ev)"
proof -
  have p: "plain_record ev" using assms(1) by (rule located_record_plain)
  have z: "truthy (get ev ''lat'')" "truthy (get ev ''lng'')"
    using assms(2) p by (simp_all add: skipped_conflict_event_def plain_record_not_nullish)
  show ?thesis using z
    by (simp add: conflict_event_layer_def coords_def check_def plain_record_not_nullish [OF p]
        L_marker_located [OF assms(1)] plain_record_get [OF p] popup_layer_convertible or_else_def)
qed

lemma built_filter:
  assumes skip: "\<And>x. x \<in> set xs \<Longrightarrow> \<not> keep x \<Longrightarrow> build x = Inr None"
      and add: "\<And>x. x \<in> set xs \<Longrightarrow> keep x \<Longrightarrow> \<exists>l. build x = Inr (Some l) \<and> view l = Some (want x)"
  shows "snd (built build xs) = None \<and>
         map view (fst (built build xs)) = map (\<lambda>x. Some (want x)) (filter keep xs)"
  using assms
proof (induction xs)
  case Nil
  show ?case by simp
next
  case (Cons x xs)
  have IH: "snd (built build xs) = None \<and>
         map view (fst (built build xs)) = map (\<lambda>x. Some (want x)) (filter keep xs)"
    using Cons by simp
  show ?case
  proof (cases "keep x")
    case True
    then obtain l where "build x = Inr (Some l)" "view l = Some (want x)"
      using Cons.prems(2) [of x] by auto
    then show ?thesis using IH True by (cases "built build xs") simp
  next
    case False
    then have "build x = Inr None" using Cons.prems(1) [of x] by simp
    then show ?thesis using IH False by simp
  qed
qed

lemma built_without_skipped:
  assumes "\<And>x. skip x \<Longrightarrow> build x = Inr None"
  shows "built build (filter (\<lambda>x. \<not> skip x) xs) = built build xs"
proof (induction xs)
  case Nil
  show ?case by simp
next
  case (Cons x xs)
  show ?case
  proof (cases "skip x")
    case True
    then show ?thesis using Cons assms [of x] by simp
  next
    case False
    then show ?thesis using Cons by (simp split: sum.splits option.splits)
  qed
qed

lemma update_group_without_skipped:
  assumes "\<And>x. skip x \<Longrightarrow> build x = Inr None"
  shows "update_group name build (JArr xs) s =
         update_group name build (JArr (filter (\<lambda>x. \<not> skip x) xs)) s"
proof (cases "layerGroups s name")
  case None
  then show ?thesis by (simp add: update_group_none)
next
  case (Some old)
  show ?thesis
    by (simp add: update_group_arr [OF Some] built_without_skipped [of skip build, OF assms])
qed

lemma updateConflictEvents_without_skipped:
  "updateConflictEvents pf (JArr xs) s =
   updateConflictEvents pf (JArr (filter (\<lambda>ev. \<not> skipped_conflict_event ev) xs)) s"
proof (cases "layerGroups s ''conflict-events''")
  case None
  then show ?thesis by (simp add: updateConflictEvents_def)
next
  case (Some old)
  have "built (conflict_event_layer pf) (filter (\<lambda>ev. \<not> skipped_conflict_event ev) xs) =
        built (conflict_event_layer pf) xs"
    by (rule built_without_skipped) (rule conflict_event_layer_skipped)
  then show ?thesis by (simp add: updateConflictEvents_arr [OF Some] split: option.splits)
qed

lemma built_disasters:
  assumes "list_all located_record xs"
  shows "snd (built (disaster_layer pf) xs) = None \<and>
   map marker_at (fst (built (disaster_layer pf) xs)) =
     map (\<lambda>d. Some (coords d)) (filter (\<lambda>d. \<not> skipped_disaster d) xs)"
proof (rule built_filter)
  fix x assume "x \<in> set xs"
  then have n: "located_record x" using assms by (simp add: list_all_iff)
  show "\<not> \<not> skipped_disaster x \<Longrightarrow> disaster_layer pf x = Inr None"
    by (simp add: disaster_layer_skipped)
  show "\<not> skipped_disaster x \<Longrightarrow>
    \<exists>l. disaster_layer pf x = Inr (Some l) \<and> marker_at l = Some (coords x)"
    using n by (rule disaster_layer_marker)
qed

lemma built_conflict_events:
  assumes "list_all located_record xs"
  shows "snd (built (conflict_event_layer pf) xs) = None \<and>
   map marker_at (fst (built (conflict_event_layer pf) xs)) =
     map (\<lambda>ev. Some (coords ev)) (filter (\<lambda>ev. \<not> skipped_conflict_event ev) xs)"
proof (rule built_filter)
  fix x assume "x \<in> set xs"
  then have n: "located_record x" using assms by (simp add: list_all_iff)
  show "\<not> \<not> skipped_conflict_event x \<Longrightarrow> conflict_event_layer pf x = Inr None"
    by (simp add: conflict_event_layer_skipped)
  show "\<not> skipped_conflict_event x \<Longrightarrow>
    \<exists>l. conflict_event_layer pf x = Inr (Some l) \<and> marker_at l = Some (coords x)"
    using n by (rule conflict_event_layer_marker)
qed

lemma initialised_group:
  "initialised s \<Longrightarrow> name \<in> set layerNames \<Longrightarrow> layerGroups s name \<noteq> None"
  by (simp add: initialised_def list_all_iff)

text \<open>
  Claim C3, as amended. A record that \<open>updateDisasters\<close> skips (its \<open>lat\<close> and
  \<open>lng\<close> are both the number 0) and a record that \<open>updateConflictEvents\<close> skips (its
  \<open>lat\<close> or its \<open>lng\<close> is falsy) leave no trace: whatever the other records and the
  state, the call does what it does on the data without the skipped records. On an
  initialised map and an array of records whose coordinates are numbers, neither function
  throws; \<open>updateDisasters\<close> adds one marker, at the coordinates of the record, for exactly
  the records that are not skipped, and \<open>updateConflictEvents\<close> puts into its one cluster
  a marker for exactly the records that are not skipped.
\<close>

theorem zero_coordinates_skipped:
  "updateDisasters pf (JArr xs) s =
     updateDisasters pf (JArr (filter (\<lambda>d. \<not> skipped_disaster d) xs)) s
   \<and> updateConflictEvents pf (JArr xs) s =
     updateConflictEvents pf (JArr (filter (\<lambda>ev. \<not> skipped_conflict_event ev) xs)) s
   \<and> (initialised s \<and> list_all located_record xs \<longrightarrow>
        snd (updateDisasters pf (JArr xs) s) = None
      \<and> map marker_at (group_layers (fst (updateDisasters pf (JArr xs) s)) ''disasters'') =
          map (\<lambda>d. Some (coords d)) (filter (\<lambda>d. \<not> skipped_disaster d) xs)
      \<and> snd (updateConflictEvents pf (JArr xs) s) = None
      \<and> length (group_layers (fst (updateConflictEvents pf (JArr xs) s)) ''conflict-events'') = 1
      \<and> map marker_at (concat (map clustered
            (group_layers (fst (updateConflictEvents pf (JArr xs) s)) ''conflict-events''))) =
          map (\<lambda>ev. Some (coords ev)) (filter (\<lambda>ev. \<not> skipped_conflict_event ev) xs))"
proof (intro conjI impI)
  show "updateDisasters pf (JArr xs) s =
     updateDisasters pf (JArr (filter (\<lambda>d. \<not> skipped_disaster d) xs)) s"
    unfolding updateDisasters_def
    by (rule update_group_without_skipped) (rule disaster_layer_skipped)
  show "updateConflictEvents pf (JArr xs) s =
     updateConflictEvents pf (JArr (filter (\<lambda>ev. \<not> skipped_conflict_event ev) xs)) s"
    by (rule updateConflictEvents_without_skipped)
next
  assume a: "initialised s \<and> list_all located_record xs"
  then have i: "initialised s" and n: "list_all located_record xs" by simp_all
  from i obtain g1 g2 where g1: "layerGroups s ''disasters'' = Some g1"
    and g2: "layerGroups s ''conflict-events'' = Some g2"
    by (auto simp: initialised_def layerNames_def)
  note d = built_disasters [OF n, of pf] and c = built_conflict_events [OF n, of pf]
  show "snd (updateDisasters pf (JArr xs) s) = None"
    using d by (simp add: updateDisasters_def update_group_arr [OF g1])
  show "map marker_at (group_layers (fst (updateDisasters pf (JArr xs) s)) ''disasters'') =
          map (\<lambda>d. Some (coords d)) (filter (\<lambda>d. \<not> skipped_disaster d) xs)"
    using d by (simp add: updateDisasters_def update_group_layers [OF g1])
  show "snd (updateConflictEvents pf (JArr xs) s) = None"
    using c by (simp add: updateConflictEvents_arr [OF g2])
  show "length (group_layers (fst (updateConflictEvents pf (JArr xs) s)) ''conflict-events'') = 1"
    using c by (simp add: updateConflictEvents_arr [OF g2] group_layers_def)
  show "map marker_at (concat (map clustered
            (group_layers (fst (updateConflictEvents pf (JArr xs) s)) ''conflict-events''))) =
          map (\<lambda>ev. Some (coords ev)) (filter (\<lambda>ev. \<not> skipped_conflict_event ev) xs)"
    using c by (simp add: updateConflictEvents_arr [OF g2] group_layers_def)
qed

text \<open>
  Claim C3 as stated fails for a disaster record whose coordinates are absent: \<open>null\<close> is
  not strictly equal to 0, so the record is not skipped. \<open>L.marker([null, null])\<close> does
  not throw, and the marker, which has no position, is added to the group.
\<close>

theorem absent_disaster_coordinates_counterexample:
  \<open>updateDisasters sample_platform
     (JArr [JObj [(''title'', JStr ''Flood''), (''lat'', JNull), (''lng'', JNull)]]) map_init
   = (map_init\<lparr> layerGroups := (layerGroups map_init)(''disasters'' \<mapsto>
        [Marker JNull JNull (DisasterIcon JUndefined)
          [Lit ''<h4>'', Str (JStr ''Flood''), Lit ''</h4>'',
           Lit ''<div class="popup-type">'', Str JUndefined, Lit '' '', Lit [], Lit ''</div>'',
           Lit ''<div class="popup-detail">Source: '', Str JUndefined, Lit ''</div>'']]) \<rparr>, None)\<close>
  by (simp add: updateDisasters_def update_group_def map_init_def layerNames_def forEach_js_def
      add_to_group_def disaster_layer_def check_def icon_arg_def L_marker_def toLatLng_def
      popup_layer_def template_def clearLayers_def addLayer_def)

theorem zero_coordinates_skipped_witness:
  "initialised map_init
   \<and> list_all located_record
        [JObj [(''lat'', JNum 0), (''lng'', JNum 0)], JObj [(''lat'', JNum 10), (''lng'', JNum 20)],
         JObj [(''lat'', JNum 0), (''lng'', JNum 7)]]
   \<and> map marker_at (group_layers (fst (updateDisasters sample_platform (JArr
        [JObj [(''lat'', JNum 0), (''lng'', JNum 0)], JObj [(''lat'', JNum 10), (''lng'', JNum 20)],
         JObj [(''lat'', JNum 0), (''lng'', JNum 7)]]) map_init)) ''disasters'')
      = [Some (JNum 10, JNum 20), Some (JNum 0, JNum 7)]
   \<and> map marker_at (concat (map clustered (group_layers (fst (updateConflictEvents sample_platform (JArr
        [JObj [(''lat'', JNum 0), (''lng'', JNum 0)], JObj [(''lat'', JNum 10), (''lng'', JNum 20)],
         JObj [(''lat'', JNum 0), (''lng'', JNum 7)]]) map_init)) ''conflict-events'')))
      = [Some (JNum 10, JNum 20)]"
proof -
  have i: "initialised map_init"
    by (simp add: initialised_def map_init_def layerNames_def)
  have n: "list_all located_record
        [JObj [(''lat'', JNum 0), (''lng'', JNum 0)], JObj [(''lat'', JNum 10), (''lng'', JNum 20)],
         JObj [(''lat'', JNum 0), (''lng'', JNum 7)]]"
    by (simp add: located_record_def)
  show ?thesis
    using i n zero_coordinates_skipped [where pf = sample_platform and s = map_init and xs =
        "[JObj [(''lat'', JNum 0), (''lng'', JNum 0)], JObj [(''lat'', JNum 10), (''lng'', JNum 20)],
          JObj [(''lat'', JNum 0), (''lng'', JNum 7)]]", THEN conjunct2, THEN conjunct2]
    by (simp add: coords_def skipped_disaster_def skipped_conflict_event_def)
qed


lemma latlngs_of_arr:
  "latlngs_of pts = Inr latlngs \<Longrightarrow> \<exists>ps. pts = JArr ps \<and> length latlngs = length ps"
  by (cases pts) (auto simp: latlngs_of_def split: if_splits)

lemma cable_layer_two_points:
  assumes "cable_layer pf cable = Inr (Some l)"
  shows "case polyline_points l of Some pts \<Rightarrow> 2 \<le> length pts | None \<Rightarrow> False"
proof -
  from assms obtain latlngs pieces where
    l: "popup_layer (Polyline latlngs) pieces = Inr (Some l)"
    and ge: "ge2 pf (get (get cable ''points'') ''length'') = Inr True"
    and ll: "latlngs_of (get cable ''points'') = Inr latlngs"
    by (auto simp: cable_layer_def check_def split: if_splits sum.splits option.splits)
  from latlngs_of_arr [OF ll] obtain ps where ps: "get cable ''points'' = JArr ps" "length latlngs = length ps"
    by blast
  from ge ps have "2 \<le> length ps" by (simp add: ge2_def to_number_def)
  then show ?thesis using popup_layer_Some [OF l] ps by simp
qed

lemma numeric_point_index:
  "numeric_point p \<Longrightarrow> \<exists>a b. index p 0 = JNum a \<and> index p 1 = JNum b"
  by (erule numeric_point.elims) simp_all

lemma numeric_point_not_nullish: "numeric_point p \<Longrightarrow> \<not> nullish p"
  by (cases p) simp_all

lemma numeric_points_not_nullish: "list_all numeric_point ps \<Longrightarrow> \<not> list_ex nullish ps"
  by (induction ps) (simp_all add: numeric_point_not_nullish)

lemma toLatLng_numeric_point:
  "numeric_point p \<Longrightarrow> toLatLng pf (index p 0) (index p 1) = None"
  using numeric_point_index [of p] by (auto simp: toLatLng_numbers)

lemma first_error_numeric_points:
  "list_all numeric_point ps \<Longrightarrow>
   first_error (map (\<lambda>(lat, lng). toLatLng pf lat lng) (map (\<lambda>p. (index p 0, index p 1)) ps)) = None"
  by (induction ps) (simp_all add: toLatLng_numeric_point del: One_nat_def)

lemma L_polyline_numeric_points:
  assumes "list_all numeric_point ps"
  shows "L_polyline pf (map (\<lambda>p. (index p 0, index p 1)) ps) = None"
proof (cases ps)
  case Nil
  then show ?thesis by (simp add: L_polyline_def)
next
  case (Cons p rest)
  then have "numeric_point p" using assms by simp
  then obtain a b where ab: "index p 0 = JNum a" "index p 1 = JNum b"
    using numeric_point_index by blast
  have "first_error (map (\<lambda>(lat, lng). toLatLng pf lat lng) (map (\<lambda>p. (index p 0, index p 1)) (p # rest))) = None"
    using assms Cons first_error_numeric_points [of "p # rest" pf] by simp
  then show ?thesis using Cons ab by (simp add: L_polyline_def)
qed

lemma cable_layer_skip:
  assumes "wf_cable cable" "\<not> 2 \<le> length (points_of cable)"
  shows "cable_layer pf cable = Inr None"
  using assms
  by (cases "get cable ''points''")
     (auto simp: wf_cable_def points_of_def cable_layer_def ge2_def to_number_def
        plain_record_not_nullish)

lemma cable_layer_polyline:
  assumes "wf_cable cable" "2 \<le> length (points_of cable)"
  shows "\<exists>l. cable_layer pf cable = Inr (Some l) \<and>
    polyline_points l = Some (map (\<lambda>p. (index p 0, index p 1)) (points_of cable))"
proof -
  have p: "plain_record cable" using assms(1) by (simp add: wf_cable_def)
  from assms obtain ps where ps: "get cable ''points'' = JArr ps" "list_all numeric_point ps"
      "2 \<le> length ps"
    by (cases "get cable ''points''") (auto simp: wf_cable_def points_of_def)
  have ll: "latlngs_of (JArr ps) = Inr (map (\<lambda>p. (index p 0, index p 1)) ps)"
    using numeric_points_not_nullish [OF ps(2)] by (simp add: latlngs_of_def)
  show ?thesis using ps(3)
    by (simp add: cable_layer_def ps(1) points_of_def ge2_def to_number_def ll check_def
        L_polyline_numeric_points [OF ps(2)] plain_record_not_nullish [OF p]
        plain_record_get [OF p] popup_layer_convertible del: One_nat_def)
qed

text \<open>
  Claim C9. Whatever the data and the state, every layer of the cables group after
  \<open>updateCables\<close> is a polyline of at least two points. On an initialised map and an
  array of cable records whose points are pairs of numbers, \<open>updateCables\<close> does not
  throw and the group holds, in order, one polyline for exactly the records that have at
  least two points, made of these points.
\<close>

theorem cable_polyline_iff_two_points:
  "list_all (\<lambda>l. case polyline_points l of Some pts \<Rightarrow> 2 \<le> length pts | None \<Rightarrow> False)
     (group_layers (fst (updateCables pf data s)) ''cables'')
   \<and> (initialised s \<and> list_all wf_cable xs \<longrightarrow>
        snd (updateCables pf (JArr xs) s) = None
      \<and> map polyline_points (group_layers (fst (updateCables pf (JArr xs) s)) ''cables'') =
          map (\<lambda>cable. Some (map (\<lambda>p. (index p 0, index p 1)) (points_of cable)))
            (filter (\<lambda>cable. 2 \<le> length (points_of cable)) xs))"
proof (intro conjI impI)
  show "list_all (\<lambda>l. case polyline_points l of Some pts \<Rightarrow> 2 \<le> length pts | None \<Rightarrow> False)
     (group_layers (fst (updateCables pf data s)) ''cables'')"
    unfolding updateCables_def by (rule update_group_all) (rule cable_layer_two_points)
next
  assume a: "initialised s \<and> list_all wf_cable xs"
  then obtain old where g: "layerGroups s ''cables'' = Some old"
    using initialised_group [of s "''cables''"] by (auto simp: layerNames_def)
  have b: "snd (built (cable_layer pf) xs) = None \<and>
      map polyline_points (fst (built (cable_layer pf) xs)) =
      map (\<lambda>cable. Some (map (\<lambda>p. (index p 0, index p 1)) (points_of cable)))
        (filter (\<lambda>cable. 2 \<le> length (points_of cable)) xs)"
  proof (rule built_filter)
    fix x assume "x \<in> set xs"
    then have w: "wf_cable x" using a by (simp add: list_all_iff)
    show "\<not> 2 \<le> length (points_of x) \<Longrightarrow> cable_layer pf x = Inr None"
      using w by (rule cable_layer_skip)
    show "2 \<le> length (points_of x) \<Longrightarrow> \<exists>l. cable_layer pf x = Inr (Some l) \<and>
      polyline_points l = Some (map (\<lambda>p. (index p 0, index p 1)) (points_of x))"
      using w by (rule cable_layer_polyline)
  qed
  show "snd (updateCables pf (JArr xs) s) = None"
    using b by (simp add: updateCables_def update_group_arr [OF g])
  show "map polyline_points (group_layers (fst (updateCables pf (JArr xs) s)) ''cables'') =
          map (\<lambda>cable. Some (map (\<lambda>p. (index p 0, index p 1)) (points_of cable)))
            (filter (\<lambda>cable. 2 \<le> length (points_of cable)) xs)"
    using b by (simp add: updateCables_def update_group_layers [OF g])
qed

theorem cable_polyline_iff_two_points_witness:
  "initialised map_init
   \<and> list_all wf_cable
       [JObj [(''name'', JStr ''A''), (''points'', JArr [JArr [JNum 1, JNum 2], JArr [JNum 3, JNum 4]])],
        JObj [(''name'', JStr ''B''), (''points'', JArr [JArr [JNum 5, JNum 6]])],
        JObj [(''name'', JStr ''C'')]]
   \<and> map polyline_points (group_layers (fst (updateCables sample_platform (JArr
       [JObj [(''name'', JStr ''A''), (''points'', JArr [JArr [JNum 1, JNum 2], JArr [JNum 3, JNum 4]])],
        JObj [(''name'', JStr ''B''), (''points'', JArr [JArr [JNum 5, JNum 6]])],
        JObj [(''name'', JStr ''C'')]]) map_init)) ''cables'')
     = [Some [(JNum 1, JNum 2), (JNum 3, JNum 4)]]"
proof -
  have i: "initialised map_init"
    by (simp add: initialised_def map_init_def layerNames_def)
  have w: "list_all wf_cable
       [JObj [(''name'', JStr ''A''), (''points'', JArr [JArr [JNum 1, JNum 2], JArr [JNum 3, JNum 4]])],
        JObj [(''name'', JStr ''B''), (''points'', JArr [JArr [JNum 5, JNum 6]])],
        JObj [(''name'', JStr ''C'')]]"
    by (simp add: wf_cable_def)
  show ?thesis
    using i w cable_polyline_iff_two_points [of sample_platform JNull map_init
       "[JObj [(''name'', JStr ''A''), (''points'', JArr [JArr [JNum 1, JNum 2], JArr [JNum 3, JNum 4]])],
        JObj [(''name'', JStr ''B''), (''points'', JArr [JArr [JNum 5, JNum 6]])],
        JObj [(''name'', JStr ''C'')]]"]
    by (simp add: points_of_def)
qed


section \<open>Properties of the dashboard module\<close>

subsection \<open>Rendering an array of items\<close>

lemma map_js_total:
  assumes "\<And>x. x \<in> set xs \<Longrightarrow> f x = Inr (g x)"
  shows "map_js f xs = Inr (map g xs)"
  using assms by (induction xs) simp_all

lemma filter_js_total:
  assumes "\<And>x. x \<in> set xs \<Longrightarrow> p x = Inr (q x)"
  shows "filter_js p xs = Inr (filter q xs)"
  using assms by (induction xs) simp_all

lemma length_truthy: "truthy (get (JArr xs) ''length'') \<longleftrightarrow> xs \<noteq> []"
  by simp

lemma escapeHtml_convertible: "stringifiable v \<Longrightarrow> convertible (escapeHtml v)"
  by (simp add: escapeHtml_def)

lemma formatTime_convertible: "stringifiable v \<Longrightarrow> convertible (formatTime v)"
  by (simp add: formatTime_def)

lemma news_item_plain: "plain_record item \<Longrightarrow> news_item item = Inr (news_card item)"
  by (simp add: news_item_def template_def news_card_def apostrophe_def plain_record_not_nullish
      plain_record_get escapeHtml_convertible formatTime_convertible)

lemma alert_item_plain: "plain_record item \<Longrightarrow> alert_item item = Inr (alert_card item)"
  by (simp add: alert_item_def template_def alert_card_def apostrophe_def plain_record_not_nullish
      plain_record_get escapeHtml_convertible formatTime_convertible)

lemma ticker_item_plain: "plain_record item \<Longrightarrow> ticker_item item = Inr (ticker_span item)"
  by (simp add: ticker_item_def template_def ticker_span_def plain_record_not_nullish
      plain_record_get escapeHtml_convertible)

lemma filter_is_alert:
  assumes "list_all plain_record xs"
  shows "filter_js is_alert xs = Inr (filter flagged xs)"
  by (rule filter_js_total)
     (simp add: is_alert_def flagged_def plain_record_not_nullish plain_records_in [OF assms])

lemma renderNews_arr:
  assumes "list_all plain_record xs"
  shows "renderNews (JArr xs) st =
     (set_html ''news-list''
        (if xs = [] then loading ''No news available'' else map news_card (take 100 xs)) st, None)"
proof -
  have n: "list_all plain_record (take 100 xs)"
    using assms by (auto simp: list_all_iff dest: in_set_takeD)
  have "map_js news_item (take 100 xs) = Inr (map news_card (take 100 xs))"
    by (rule map_js_total) (simp only: news_item_plain plain_records_in [OF n])
  then show ?thesis by (simp add: renderNews_def)
qed

lemma renderAlerts_arr:
  assumes "list_all plain_record xs"
  shows "renderAlerts (JArr xs) st =
     (set_html ''alerts-list''
        (if xs = [] then loading ''No active alerts'' else map alert_card xs) st, None)"
proof -
  have "map_js alert_item xs = Inr (map alert_card xs)"
    by (rule map_js_total) (simp only: alert_item_plain plain_records_in [OF assms])
  then show ?thesis by (simp add: renderAlerts_def)
qed

lemma render_alerts_of_arr:
  assumes "list_all plain_record xs"
  shows "render_alerts_of (JArr xs) st =
     (set_html ''alerts-list''
        (if filter flagged xs = [] then loading ''No active alerts''
         else map alert_card (filter flagged xs)) st, None)"
proof -
  have "list_all plain_record (filter flagged xs)"
    using assms by (auto simp: list_all_iff)
  then show ?thesis
    by (simp add: render_alerts_of_def filter_is_alert [OF assms] renderAlerts_arr)
qed

lemma renderTicker_arr:
  assumes "list_all plain_record xs"
  shows "renderTicker (JArr xs) st =
     (set_html ''ticker-content'' (map ticker_span (take 10 (filter flagged xs) @ take 15 xs)) st, None)"
proof -
  have n: "list_all plain_record (take 10 (filter flagged xs) @ take 15 xs)"
    using assms by (auto simp: list_all_iff dest!: in_set_takeD)
  have "map_js ticker_item (take 10 (filter flagged xs) @ take 15 xs) =
      Inr (map ticker_span (take 10 (filter flagged xs) @ take 15 xs))"
    by (rule map_js_total) (simp only: ticker_item_plain plain_records_in [OF n])
  then show ?thesis
    by (simp add: renderTicker_def filter_is_alert [OF assms] Let_def)
qed

lemma updateSourceFilter_arr:
  assumes "list_all plain_record xs"
  shows "updateSourceFilter current (JArr xs) st =
    (set_html ''news-source-filter'' [source_options current (map (\<lambda>i. get i ''source'') xs)] st, None)"
proof -
  have "map_js source_of xs = Inr (map (\<lambda>i. get i ''source'') xs)"
    by (rule map_js_total)
       (simp add: source_of_def plain_record_not_nullish plain_records_in [OF assms])
  moreover have "list_all stringifiable (map (\<lambda>i. get i ''source'') xs)"
    using assms by (simp add: list_all_iff plain_record_get)
  ultimately show ?thesis
    by (simp add: updateSourceFilter_def template_def source_options_def)
qed

lemma set_count_arr:
  "set_count ident (JArr xs) st = (set_html ident [[Str (JNum (real (length xs)))]] st, None)"
  by (simp add: set_count_def template_def)

lemma news_loaded_arr:
  assumes "list_all plain_record xs"
  shows "news_loaded source (JArr xs) st =
     (set_html ''stat-news'' [[Str (JNum (real (length xs)))]]
       (set_html ''news-source-filter'' [source_options source (map (\<lambda>i. get i ''source'') xs)]
         (set_html ''ticker-content'' (map ticker_span (take 10 (filter flagged xs) @ take 15 xs))
           (set_html ''alerts-list''
              (if filter flagged xs = [] then loading ''No active alerts''
               else map alert_card (filter flagged xs))
             (set_html ''news-list''
                (if xs = [] then loading ''No news available'' else map news_card (take 100 xs)) st)))),
      None)"
  by (simp add: news_loaded_def then_do_def renderNews_arr [OF assms] render_alerts_of_arr [OF assms]
        renderTicker_arr [OF assms] updateSourceFilter_arr [OF assms] set_count_arr)

lemma catch_do_fulfilled:
  assumes "\<And>e s. snd (h e s) = None"
  shows "snd (catch_do p h s) = None"
  using assms by (simp add: catch_do_def split: prod.splits option.splits)

lemma promise_all_fulfilled:
  assumes "\<And>p s. p \<in> set ps \<Longrightarrow> snd (p s) = None"
  shows "snd (promise_all ps s) = None"
  using assms
proof (induction ps arbitrary: s)
  case Nil
  show ?case by simp
next
  case (Cons p ps)
  have "snd (p s) = None" using Cons.prems by simp
  moreover have "snd (promise_all ps (fst (p s))) = None" using Cons by simp
  ultimately show ?case by (cases "p s"; cases "promise_all ps (fst (p s))") simp
qed

lemma loadNews_fulfilled: "snd (loadNews net source st) = None"
  unfolding loadNews_def by (rule catch_do_fulfilled) (simp add: news_failed_def)

lemma loadGdelt_fulfilled: "snd (loadGdelt net st) = None"
  unfolding loadGdelt_def by (rule catch_do_fulfilled) (simp add: gdelt_failed_def)

lemma loadEarthquakes_fulfilled: "snd (loadEarthquakes pf net st) = None"
  unfolding loadEarthquakes_def by (rule catch_do_fulfilled) (simp add: log_only_def)

lemma loadConflictZones_fulfilled: "snd (loadConflictZones pf net st) = None"
  unfolding loadConflictZones_def by (rule catch_do_fulfilled) (simp add: log_only_def)

lemma loadHotspots_fulfilled: "snd (loadHotspots pf net st) = None"
  unfolding loadHotspots_def by (rule catch_do_fulfilled) (simp add: log_only_def)

lemma loadStats_fulfilled: "snd (loadStats net st) = None"
  unfolding loadStats_def
  by (rule promise_all_fulfilled) (auto intro!: catch_do_fulfilled simp: log_only_def)

lemma loadNews_rejected:
  assumes "fetch_json net (news_url source (alertsOnly st)) = Inl e"
  shows "loadNews net source st =
    (set_html ''news-list'' (loading ''Failed to load news'')
       (st\<lparr> requests := requests st @ [news_url source (alertsOnly st)] \<rparr>), None)"
  using assms by (simp add: loadNews_def catch_do_def fetch_then_def news_failed_def Let_def)

lemma loadGdelt_rejected:
  assumes "fetch_json net (plain ''/api/gdelt'') = Inl e"
  shows "loadGdelt net st =
    (set_html ''gdelt-list'' (loading ''Failed to load GDELT data'')
       (st\<lparr> requests := requests st @ [plain ''/api/gdelt''] \<rparr>), None)"
  using assms by (simp add: loadGdelt_def catch_do_def fetch_then_def gdelt_failed_def Let_def)

lemma loadNews_arr:
  assumes "fetch_json net (news_url source (alertsOnly st)) = Inr (JArr xs)" "list_all plain_record xs"
  shows "loadNews net source st =
    news_loaded source (JArr xs) (st\<lparr> requests := requests st @ [news_url source (alertsOnly st)] \<rparr>)"
proof -
  have "snd (news_loaded source (JArr xs) (st\<lparr> requests := requests st @ [news_url source (alertsOnly st)] \<rparr>)) = None"
    by (simp only: news_loaded_arr [OF assms(2)] snd_conv)
  then show ?thesis using assms(1)
    by (cases "news_loaded source (JArr xs) (st\<lparr> requests := requests st @ [news_url source (alertsOnly st)] \<rparr>)")
       (simp add: loadNews_def catch_do_def fetch_then_def Let_def)
qed

subsection \<open>The request log and the timers\<close>

lemma then_do_requests:
  assumes "\<And>s. requests (fst (f s)) = requests s" "\<And>s. requests (fst (g s)) = requests s"
  shows "requests (fst (then_do f g s)) = requests s"
proof (cases "f s")
  case (Pair s' r)
  then have "requests s' = requests s" using assms(1) [of s] by simp
  then show ?thesis using Pair assms(2) [of s'] by (cases r) (simp_all add: then_do_def)
qed

lemma set_html_requests [simp]: "requests (set_html ident frags st) = requests st"
  by (simp add: set_html_def)

lemma renderNews_requests: "requests (fst (renderNews d st)) = requests st"
  by (simp add: renderNews_def split: jsval.splits sum.splits)

lemma renderAlerts_requests: "requests (fst (renderAlerts d st)) = requests st"
  by (simp add: renderAlerts_def split: jsval.splits sum.splits)

lemma render_alerts_of_requests: "requests (fst (render_alerts_of d st)) = requests st"
  by (simp add: render_alerts_of_def renderAlerts_requests split: jsval.splits sum.splits)

lemma renderTicker_requests: "requests (fst (renderTicker d st)) = requests st"
  by (simp add: renderTicker_def Let_def split: jsval.splits sum.splits)

lemma updateSourceFilter_requests: "requests (fst (updateSourceFilter c d st)) = requests st"
  by (simp add: updateSourceFilter_def split: jsval.splits sum.splits)

lemma set_count_requests: "requests (fst (set_count ident d st)) = requests st"
  by (simp add: set_count_def split: sum.splits)

lemma renderGdelt_requests: "requests (fst (renderGdelt d st)) = requests st"
  by (simp add: renderGdelt_def split: jsval.splits sum.splits)

lemma in_world_map_requests: "requests (fst (in_world_map f st)) = requests st"
  by (simp add: in_world_map_def split: prod.splits)

lemma news_loaded_requests: "requests (fst (news_loaded source d st)) = requests st"
  unfolding news_loaded_def
  by (intro then_do_requests renderNews_requests render_alerts_of_requests renderTicker_requests
      updateSourceFilter_requests set_count_requests)

lemma fetch_then_requests:
  assumes "\<And>d s. requests (fst (cb d s)) = requests s"
  shows "requests (fst (fetch_then net u cb st)) = requests st @ [u]"
  using assms by (simp add: fetch_then_def Let_def split: sum.splits)

lemma catch_do_requests:
  assumes "requests (fst (p s)) = requests s @ us" "\<And>e s. requests (fst (h e s)) = requests s"
  shows "requests (fst (catch_do p h s)) = requests s @ us"
proof (cases "p s")
  case (Pair s' r)
  then show ?thesis using assms(1) assms(2) [of _ s'] by (cases r) (simp_all add: catch_do_def)
qed

lemma loadNews_requests:
  "requests (fst (loadNews net source st)) = requests st @ [news_url source (alertsOnly st)]"
  unfolding loadNews_def
  by (intro catch_do_requests fetch_then_requests news_loaded_requests) (simp add: news_failed_def)

lemma loadEarthquakes_requests:
  "requests (fst (loadEarthquakes pf net st)) = requests st @ [plain ''/api/earthquakes'']"
  unfolding loadEarthquakes_def
  by (intro catch_do_requests fetch_then_requests then_do_requests in_world_map_requests set_count_requests)
     (simp add: log_only_def)

lemma loadConflictZones_requests:
  "requests (fst (loadConflictZones pf net st)) = requests st @ [plain ''/api/layers/conflict-zones'']"
  unfolding loadConflictZones_def
  by (intro catch_do_requests fetch_then_requests in_world_map_requests) (simp add: log_only_def)

lemma loadHotspots_requests:
  "requests (fst (loadHotspots pf net st)) = requests st @ [plain ''/api/layers/hotspots'']"
  unfolding loadHotspots_def
  by (intro catch_do_requests fetch_then_requests in_world_map_requests) (simp add: log_only_def)

lemma loadGdelt_requests:
  "requests (fst (loadGdelt net st)) = requests st @ [plain ''/api/gdelt'']"
  unfolding loadGdelt_def
  by (intro catch_do_requests fetch_then_requests renderGdelt_requests) (simp add: gdelt_failed_def)

lemma promise_all_Cons_fst:
  "fst (promise_all (p # ps) s) = fst (promise_all ps (fst (p s)))"
  by (simp split: prod.splits)

lemma loadStats_requests:
  "requests (fst (loadStats net st)) = requests st @ [plain ''/api/conflicts'', plain ''/api/disasters'']"
proof -
  have c: "\<And>u ident s. requests (fst (catch_do (fetch_then net u (set_count ident)) log_only s)) = requests s @ [u]"
    by (intro catch_do_requests fetch_then_requests set_count_requests) (simp add: log_only_def)
  show ?thesis by (simp add: loadStats_def promise_all_Cons_fst c del: promise_all.simps(2))
qed

lemma loadAllData_requests:
  "requests (loadAllData pf net source st) =
     requests st @
     [news_url source (alertsOnly st), plain ''/api/earthquakes'', plain ''/api/layers/conflict-zones'',
      plain ''/api/layers/hotspots'', plain ''/api/gdelt'', plain ''/api/conflicts'', plain ''/api/disasters'']"
proof -
  let ?ps = "[loadNews net source, loadEarthquakes pf net, loadConflictZones pf net,
              loadHotspots pf net, loadGdelt net, loadStats net]"
  let ?s0 = "updateStatus ''Refreshing...'' st"
  have a: "alertsOnly ?s0 = alertsOnly st" "requests ?s0 = requests st"
    by (simp_all add: updateStatus_def set_html_def)
  have r: "requests (fst (promise_all ?ps ?s0)) = requests st @
     [news_url source (alertsOnly st), plain ''/api/earthquakes'', plain ''/api/layers/conflict-zones'',
      plain ''/api/layers/hotspots'', plain ''/api/gdelt'', plain ''/api/conflicts'', plain ''/api/disasters'']"
    by (simp add: promise_all_Cons_fst loadNews_requests loadEarthquakes_requests loadConflictZones_requests
        loadHotspots_requests loadGdelt_requests loadStats_requests a del: promise_all.simps(2))
  show ?thesis
    using r by (cases "promise_all ?ps ?s0")
      (simp add: loadAllData_def updateStatus_def set_html_def split: option.splits)
qed

lemma then_do_timers:
  assumes "\<And>s. timers (fst (f s)) = timers s" "\<And>s. timers (fst (g s)) = timers s"
  shows "timers (fst (then_do f g s)) = timers s"
proof (cases "f s")
  case (Pair s' r)
  then have "timers s' = timers s" using assms(1) [of s] by simp
  then show ?thesis using Pair assms(2) [of s'] by (cases r) (simp_all add: then_do_def)
qed

lemma set_html_timers [simp]: "timers (set_html ident frags st) = timers st"
  by (simp add: set_html_def)

lemma renderNews_timers: "timers (fst (renderNews d st)) = timers st"
  by (simp add: renderNews_def split: jsval.splits sum.splits)

lemma renderAlerts_timers: "timers (fst (renderAlerts d st)) = timers st"
  by (simp add: renderAlerts_def split: jsval.splits sum.splits)

lemma render_alerts_of_timers: "timers (fst (render_alerts_of d st)) = timers st"
  by (simp add: render_alerts_of_def renderAlerts_timers split: jsval.splits sum.splits)

lemma renderTicker_timers: "timers (fst (renderTicker d st)) = timers st"
  by (simp add: renderTicker_def Let_def split: jsval.splits sum.splits)

lemma updateSourceFilter_timers: "timers (fst (updateSourceFilter c d st)) = timers st"
  by (simp add: updateSourceFilter_def split: jsval.splits sum.splits)

lemma set_count_timers: "timers (fst (set_count ident d st)) = timers st"
  by (simp add: set_count_def split: sum.splits)

lemma renderGdelt_timers: "timers (fst (renderGdelt d st)) = timers st"
  by (simp add: renderGdelt_def split: jsval.splits sum.splits)

lemma in_world_map_timers: "timers (fst (in_world_map f st)) = timers st"
  by (simp add: in_world_map_def split: prod.splits)

lemma news_loaded_timers: "timers (fst (news_loaded source d st)) = timers st"
  unfolding news_loaded_def
  by (intro then_do_timers renderNews_timers render_alerts_of_timers renderTicker_timers
      updateSourceFilter_timers set_count_timers)

lemma fetch_then_timers:
  assumes "\<And>d s. timers (fst (cb d s)) = timers s"
  shows "timers (fst (fetch_then net u cb st)) = timers st"
  using assms by (simp add: fetch_then_def Let_def split: sum.splits)

lemma catch_do_timers:
  assumes "\<And>s. timers (fst (p s)) = timers s" "\<And>e s. timers (fst (h e s)) = timers s"
  shows "timers (fst (catch_do p h s)) = timers s"
proof (cases "p s")
  case (Pair s' r)
  then show ?thesis using assms(1) [of s] assms(2) [of _ s'] by (cases r) (simp_all add: catch_do_def)
qed

lemma promise_all_timers:
  assumes "\<And>p s. p \<in> set ps \<Longrightarrow> timers (fst (p s)) = timers s"
  shows "timers (fst (promise_all ps s)) = timers s"
  using assms
proof (induction ps arbitrary: s)
  case Nil
  show ?case by simp
next
  case (Cons p ps)
  have "timers (fst (promise_all ps (fst (p s)))) = timers (fst (p s))" using Cons by simp
  also have "\<dots> = timers s" using Cons.prems by simp
  finally show ?case by (simp only: promise_all_Cons_fst)
qed

lemma loads_timers:
  "timers (fst (loadNews net source st)) = timers st"
  "timers (fst (loadEarthquakes pf net st)) = timers st"
  "timers (fst (loadConflictZones pf net st)) = timers st"
  "timers (fst (loadHotspots pf net st)) = timers st"
  "timers (fst (loadGdelt net st)) = timers st"
  "timers (fst (loadStats net st)) = timers st"
  unfolding loadNews_def loadEarthquakes_def loadConflictZones_def loadHotspots_def loadGdelt_def
    loadStats_def
  by (intro catch_do_timers fetch_then_timers news_loaded_timers then_do_timers in_world_map_timers
        set_count_timers renderGdelt_timers promise_all_timers;
      auto simp: news_failed_def gdelt_failed_def log_only_def
        intro!: catch_do_timers fetch_then_timers set_count_timers)+

lemma loadAllData_timers: "timers (loadAllData pf net source st) = timers st"
proof -
  let ?ps = "[loadNews net source, loadEarthquakes pf net, loadConflictZones pf net,
              loadHotspots pf net, loadGdelt net, loadStats net]"
  let ?s0 = "updateStatus ''Refreshing...'' st"
  have "timers (fst (promise_all ?ps ?s0)) = timers ?s0"
    by (rule promise_all_timers) (auto simp: loads_timers)
  then show ?thesis
    by (cases "promise_all ?ps ?s0")
      (simp add: loadAllData_def updateStatus_def split: option.splits)
qed

subsection \<open>Panels, alerts and limits\<close>

lemma renderGdelt_empty:
  "renderGdelt (JArr []) st = (set_html ''gdelt-list'' (loading ''No GDELT data available'') st, None)"
  by (simp add: renderGdelt_def)

lemma loadGdelt_empty:
  assumes "fetch_json net (plain ''/api/gdelt'') = Inr (JArr [])"
  shows "loadGdelt net st =
    (set_html ''gdelt-list'' (loading ''No GDELT data available'')
       (st\<lparr> requests := requests st @ [plain ''/api/gdelt''] \<rparr>), None)"
  using assms by (simp add: loadGdelt_def catch_do_def fetch_then_def renderGdelt_empty Let_def)

lemma content_set_html:
  "content (set_html ident frags st) i = (if i = ident then frags else content st i)"
  by (simp add: set_html_def)

text \<open>
  Claim C4. For an empty array \<open>renderNews\<close> writes the placeholder "No news available"
  and \<open>renderGdelt\<close> "No GDELT data available", also when the array comes through the
  load function. When the fetch (or the parsing of its response) is rejected, \<open>loadNews\<close>
  writes "Failed to load news" into the news list and \<open>loadGdelt\<close> "Failed to load GDELT
  data" into the GDELT list, and changes nothing else on the page. Whatever the network
  answers, the promise of each of the six load functions is fulfilled: no exception escapes.
\<close>

theorem panel_degrades_alone:
  "renderNews (JArr []) st = (set_html ''news-list'' (loading ''No news available'') st, None)
   \<and> renderGdelt (JArr []) st = (set_html ''gdelt-list'' (loading ''No GDELT data available'') st, None)
   \<and> (fetch_json net (news_url source (alertsOnly st)) = Inr (JArr []) \<longrightarrow>
        snd (loadNews net source st) = None
      \<and> content (fst (loadNews net source st)) ''news-list'' = loading ''No news available'')
   \<and> (fetch_json net (plain ''/api/gdelt'') = Inr (JArr []) \<longrightarrow>
        loadGdelt net st =
          (set_html ''gdelt-list'' (loading ''No GDELT data available'')
             (st\<lparr> requests := requests st @ [plain ''/api/gdelt''] \<rparr>), None))
   \<and> (fetch_json net (news_url source (alertsOnly st)) = Inl e \<longrightarrow>
        loadNews net source st =
          (set_html ''news-list'' (loading ''Failed to load news'')
             (st\<lparr> requests := requests st @ [news_url source (alertsOnly st)] \<rparr>), None))
   \<and> (fetch_json net (plain ''/api/gdelt'') = Inl e \<longrightarrow>
        loadGdelt net st =
          (set_html ''gdelt-list'' (loading ''Failed to load GDELT data'')
             (st\<lparr> requests := requests st @ [plain ''/api/gdelt''] \<rparr>), None))
   \<and> snd (loadNews net source st) = None
   \<and> snd (loadGdelt net st) = None
   \<and> snd (loadEarthquakes pf net st) = None
   \<and> snd (loadConflictZones pf net st) = None
   \<and> snd (loadHotspots pf net st) = None
   \<and> snd (loadStats net st) = None"
proof (intro conjI impI)
  show "renderNews (JArr []) st = (set_html ''news-list'' (loading ''No news available'') st, None)"
    by (simp add: renderNews_def)
  show "renderGdelt (JArr []) st = (set_html ''gdelt-list'' (loading ''No GDELT data available'') st, None)"
    by (rule renderGdelt_empty)
next
  assume a: "fetch_json net (news_url source (alertsOnly st)) = Inr (JArr [])"
  show "content (fst (loadNews net source st)) ''news-list'' = loading ''No news available''"
    by (simp add: loadNews_arr [OF a] news_loaded_arr content_set_html)
next
  assume "fetch_json net (plain ''/api/gdelt'') = Inr (JArr [])"
  then show "loadGdelt net st =
          (set_html ''gdelt-list'' (loading ''No GDELT data available'')
             (st\<lparr> requests := requests st @ [plain ''/api/gdelt''] \<rparr>), None)"
    by (rule loadGdelt_empty)
next
  assume "fetch_json net (news_url source (alertsOnly st)) = Inl e"
  then show "loadNews net source st =
          (set_html ''news-list'' (loading ''Failed to load news'')
             (st\<lparr> requests := requests st @ [news_url source (alertsOnly st)] \<rparr>), None)"
    by (rule loadNews_rejected)
next
  assume "fetch_json net (plain ''/api/gdelt'') = Inl e"
  then show "loadGdelt net st =
          (set_html ''gdelt-list'' (loading ''Failed to load GDELT data'')
             (st\<lparr> requests := requests st @ [plain ''/api/gdelt''] \<rparr>), None)"
    by (rule loadGdelt_rejected)
qed (simp_all add: loadNews_fulfilled loadGdelt_fulfilled loadEarthquakes_fulfilled
      loadConflictZones_fulfilled loadHotspots_fulfilled loadStats_fulfilled)

theorem panel_degrades_alone_witness:
  "fetch_json (\<lambda>u. Inl NetworkError) (news_url [] (alertsOnly empty_page)) = Inl NetworkError
   \<and> fetch_json (\<lambda>u. Inl NetworkError) (plain ''/api/gdelt'') = Inl NetworkError
   \<and> content (fst (loadNews (\<lambda>u. Inl NetworkError) [] empty_page)) ''news-list'' = loading ''Failed to load news''
   \<and> content (fst (loadNews (\<lambda>u. Inl NetworkError) [] empty_page)) ''alerts-list'' = []
   \<and> content (fst (loadGdelt (\<lambda>u. Inl NetworkError) empty_page)) ''gdelt-list'' = loading ''Failed to load GDELT data''"
proof -
  have a: "fetch_json (\<lambda>u. Inl NetworkError) (news_url [] (alertsOnly empty_page)) = Inl NetworkError"
    and b: "fetch_json (\<lambda>u. Inl NetworkError) (plain ''/api/gdelt'') = Inl NetworkError"
    by (simp_all add: fetch_json_def)
  show ?thesis
    using a b panel_degrades_alone [of empty_page "\<lambda>u. Inl NetworkError" "[]" NetworkError]
    by (simp add: content_set_html) (simp add: empty_page_def)
qed

lemma nth_filter_prefix:
  assumes "i < length xs" "P (xs ! i)"
  shows "length (filter P (take i xs)) < length (filter P xs)
    \<and> filter P xs ! length (filter P (take i xs)) = xs ! i"
proof -
  have "xs = take i xs @ xs ! i # drop (Suc i) xs"
    using assms(1) by (simp add: id_take_nth_drop)
  then have "filter P xs = filter P (take i xs) @ xs ! i # filter P (drop (Suc i) xs)"
    using assms(2) by (metis filter.simps(2) filter_append)
  then show ?thesis by (simp add: nth_append)
qed

text \<open>
  Claim C7. When the news endpoint answers with an array of news records, the alerts panel shows
  the cards of exactly the items whose \<open>is_alert\<close> field is truthy (the placeholder when
  there is none), and the alert section of the ticker shows the first ten of them. For
  items whose \<open>is_alert\<close> is a boolean these are the items with \<open>is_alert\<close> true. The
  choice reads no other field: two items with the same \<open>is_alert\<close> are chosen alike.
\<close>

theorem alerts_from_server_flag:
  assumes "fetch_json net (news_url source (alertsOnly st)) = Inr (JArr xs)"
      and "list_all plain_record xs"
  shows "content (fst (loadNews net source st)) ''alerts-list'' =
           (if filter flagged xs = [] then loading ''No active alerts''
            else map alert_card (filter flagged xs))
       \<and> content (fst (loadNews net source st)) ''ticker-content'' =
           map ticker_span (take 10 (filter flagged xs)) @ map ticker_span (take 15 xs)
       \<and> (list_all (\<lambda>d. is_boolean (get d ''is_alert'')) xs \<longrightarrow>
            filter flagged xs = filter (\<lambda>d. get d ''is_alert'' = JBool True) xs)
       \<and> (get d ''is_alert'' = get d' ''is_alert'' \<longrightarrow> flagged d = flagged d')"
proof (intro conjI impI)
  show "content (fst (loadNews net source st)) ''alerts-list'' =
           (if filter flagged xs = [] then loading ''No active alerts''
            else map alert_card (filter flagged xs))"
    by (simp add: loadNews_arr [OF assms] news_loaded_arr [OF assms(2)] content_set_html)
  show "content (fst (loadNews net source st)) ''ticker-content'' =
           map ticker_span (take 10 (filter flagged xs)) @ map ticker_span (take 15 xs)"
    by (simp add: loadNews_arr [OF assms] news_loaded_arr [OF assms(2)] content_set_html)
next
  assume "list_all (\<lambda>d. is_boolean (get d ''is_alert'')) xs"
  then have "\<And>d. d \<in> set xs \<Longrightarrow> flagged d = (get d ''is_alert'' = JBool True)"
  proof -
    fix d assume "d \<in> set xs" and "list_all (\<lambda>d. is_boolean (get d ''is_alert'')) xs"
    then have "is_boolean (get d ''is_alert'')" by (simp add: list_all_iff)
    then show "flagged d = (get d ''is_alert'' = JBool True)"
      by (cases "get d ''is_alert''") (simp_all add: flagged_def)
  qed
  then show "filter flagged xs = filter (\<lambda>d. get d ''is_alert'' = JBool True) xs"
    by (intro filter_cong) simp_all
next
  assume "get d ''is_alert'' = get d' ''is_alert''"
  then show "flagged d = flagged d'" by (simp add: flagged_def)
qed

text \<open>
  Claim C8, as amended. The request for the news carries \<open>limit=200\<close>; the news panel
  shows the cards of the first 100 items only; the ticker shows the first 10 alert items
  followed by the first 15 items, at most 25 entries. An alert item at an index below 15
  that is among the first ten alert items of the list stands in the ticker twice: in the
  alert section and in the section of the first 15 items.
\<close>

theorem news_panel_and_ticker_limits:
  assumes "fetch_json net (news_url source (alertsOnly st)) = Inr (JArr xs)"
      and "list_all plain_record xs"
  shows "requests (fst (loadNews net source st)) = requests st @ [news_url source (alertsOnly st)]
       \<and> map_of (snd (news_url source (alertsOnly st))) ''limit'' = Some ''200''
       \<and> content (fst (loadNews net source st)) ''news-list'' =
           (if xs = [] then loading ''No news available'' else map news_card (take 100 xs))
       \<and> length (content (fst (loadNews net source st)) ''news-list'') \<le> 100
       \<and> content (fst (loadNews net source st)) ''ticker-content'' =
           map ticker_span (take 10 (filter flagged xs)) @ map ticker_span (take 15 xs)
       \<and> length (content (fst (loadNews net source st)) ''ticker-content'') \<le> 25
       \<and> (i < length xs \<and> i < 15 \<and> flagged (xs ! i) \<and> length (filter flagged (take i xs)) < 10 \<longrightarrow>
            length (filter flagged (take i xs)) < length (take 10 (filter flagged xs))
          \<and> content (fst (loadNews net source st)) ''ticker-content'' ! length (filter flagged (take i xs))
              = ticker_span (xs ! i)
          \<and> content (fst (loadNews net source st)) ''ticker-content'' ! (length (take 10 (filter flagged xs)) + i)
              = ticker_span (xs ! i))"
proof -
  have t: "content (fst (loadNews net source st)) ''ticker-content'' =
           map ticker_span (take 10 (filter flagged xs)) @ map ticker_span (take 15 xs)"
    by (simp add: loadNews_arr [OF assms] news_loaded_arr [OF assms(2)] content_set_html)
  have n: "content (fst (loadNews net source st)) ''news-list'' =
           (if xs = [] then loading ''No news available'' else map news_card (take 100 xs))"
    by (simp add: loadNews_arr [OF assms] news_loaded_arr [OF assms(2)] content_set_html)
  have twice: "length (filter flagged (take i xs)) < length (take 10 (filter flagged xs))
          \<and> content (fst (loadNews net source st)) ''ticker-content'' ! length (filter flagged (take i xs))
              = ticker_span (xs ! i)
          \<and> content (fst (loadNews net source st)) ''ticker-content'' ! (length (take 10 (filter flagged xs)) + i)
              = ticker_span (xs ! i)"
    if h: "i < length xs \<and> i < 15 \<and> flagged (xs ! i) \<and> length (filter flagged (take i xs)) < 10"
  proof -
    let ?k = "length (filter flagged (take i xs))"
    from h nth_filter_prefix [of i xs flagged] have
      k: "?k < length (filter flagged xs)" "filter flagged xs ! ?k = xs ! i" by simp_all
    have 1: "?k < length (take 10 (filter flagged xs))" using h k by simp
    have 2: "(map ticker_span (take 10 (filter flagged xs)) @ map ticker_span (take 15 xs)) ! ?k
        = ticker_span (xs ! i)"
      using 1 h k by (simp add: nth_append)
    have "(map ticker_span (take 10 (filter flagged xs)) @ map ticker_span (take 15 xs))
        ! (length (map ticker_span (take 10 (filter flagged xs))) + i) = map ticker_span (take 15 xs) ! i"
      by (rule nth_append_length_plus)
    moreover have "map ticker_span (take 15 xs) ! i = ticker_span (xs ! i)"
      using h by simp
    ultimately have 3: "(map ticker_span (take 10 (filter flagged xs)) @ map ticker_span (take 15 xs))
        ! (length (take 10 (filter flagged xs)) + i) = ticker_span (xs ! i)"
      by (simp only: length_map)
    show ?thesis using 1 2 3 t by simp
  qed
  have len_n: "length (content (fst (loadNews net source st)) ''news-list'') \<le> 100"
    unfolding n by (simp add: loading_def)
  have len_t: "length (content (fst (loadNews net source st)) ''ticker-content'') \<le> 25"
    unfolding t by simp
  have lim: "map_of (snd (news_url source (alertsOnly st))) ''limit'' = Some ''200''"
    by (simp add: news_url_def)
  show ?thesis
    using t n twice len_n len_t lim loadNews_requests [of net source st] by blast
qed

theorem alerts_from_server_flag_witness:
  "fetch_json (\<lambda>u. Inr (Inr (JArr two_items))) (news_url [] (alertsOnly empty_page)) = Inr (JArr two_items)
   \<and> list_all plain_record two_items
   \<and> content (fst (loadNews (\<lambda>u. Inr (Inr (JArr two_items))) [] empty_page)) ''alerts-list'' =
       [alert_card (JObj [(''title'', JStr ''a''), (''is_alert'', JBool True)])]
   \<and> content (fst (loadNews (\<lambda>u. Inr (Inr (JArr two_items))) [] empty_page)) ''ticker-content'' =
       [ticker_span (JObj [(''title'', JStr ''a''), (''is_alert'', JBool True)]),
        ticker_span (JObj [(''title'', JStr ''a''), (''is_alert'', JBool True)]),
        ticker_span (JObj [(''title'', JStr ''b''), (''is_alert'', JBool False)])]"
proof -
  have a: "fetch_json (\<lambda>u. Inr (Inr (JArr two_items))) (news_url [] (alertsOnly empty_page)) = Inr (JArr two_items)"
    by (simp add: fetch_json_def)
  have b: "list_all plain_record two_items"
    by (simp add: two_items_def)
  have f: "filter flagged two_items = [JObj [(''title'', JStr ''a''), (''is_alert'', JBool True)]]"
    by (simp add: two_items_def flagged_def)
  show ?thesis
    using a b alerts_from_server_flag [OF a b] by (simp add: f) (simp add: two_items_def)
qed

theorem news_panel_and_ticker_limits_witness:
  "fetch_json (\<lambda>u. Inr (Inr (JArr two_items))) (news_url [] (alertsOnly empty_page)) = Inr (JArr two_items)
   \<and> list_all plain_record two_items
   \<and> content (fst (loadNews (\<lambda>u. Inr (Inr (JArr two_items))) [] empty_page)) ''news-list'' =
       map news_card two_items
   \<and> content (fst (loadNews (\<lambda>u. Inr (Inr (JArr two_items))) [] empty_page)) ''ticker-content'' ! 0 =
       ticker_span (two_items ! 0)
   \<and> content (fst (loadNews (\<lambda>u. Inr (Inr (JArr two_items))) [] empty_page)) ''ticker-content'' ! 1 =
       ticker_span (two_items ! 0)"
proof -
  have a: "fetch_json (\<lambda>u. Inr (Inr (JArr two_items))) (news_url [] (alertsOnly empty_page)) = Inr (JArr two_items)"
    by (simp add: fetch_json_def)
  have b: "list_all plain_record two_items"
    by (simp add: two_items_def)
  have f: "filter flagged two_items = [JObj [(''title'', JStr ''a''), (''is_alert'', JBool True)]]"
    "flagged (two_items ! 0)" "length two_items = 2" "two_items \<noteq> []"
    "two_items ! 0 = JObj [(''title'', JStr ''a''), (''is_alert'', JBool True)]"
    by (simp_all add: two_items_def flagged_def)
  show ?thesis
    using a b news_panel_and_ticker_limits [OF a b, of 0] by (simp add: f)
qed

text \<open>
  Claim C8 as stated fails: of fifteen alert items the one at index 12 is among the first 15
  items and is an alert, but it is not among the first ten alerts and stands in the ticker
  once.
\<close>

theorem eleventh_alert_once_counterexample:
  "12 < length fifteen_alerts \<and> flagged (fifteen_alerts ! 12)
   \<and> count_list
       (content (fst (loadNews (\<lambda>u. Inr (Inr (JArr fifteen_alerts))) [] empty_page)) ''ticker-content'')
       (ticker_span (fifteen_alerts ! 12)) = 1"
proof -
  have a: "fetch_json (\<lambda>u. Inr (Inr (JArr fifteen_alerts))) (news_url [] (alertsOnly empty_page)) = Inr (JArr fifteen_alerts)"
    by (simp add: fetch_json_def)
  have b: "list_all plain_record fifteen_alerts"
    by (simp add: fifteen_alerts_def)
  have f: "filter flagged fifteen_alerts = fifteen_alerts"
    by (simp add: fifteen_alerts_def flagged_def)
  have c: "content (fst (loadNews (\<lambda>u. Inr (Inr (JArr fifteen_alerts))) [] empty_page)) ''ticker-content'' =
      map ticker_span (take 10 fifteen_alerts @ take 15 fifteen_alerts)"
    by (simp add: loadNews_arr [OF a b] news_loaded_arr [OF b] content_set_html f)
  have d: "count_list (map ticker_span (take 10 fifteen_alerts @ take 15 fifteen_alerts))
      (ticker_span (fifteen_alerts ! 12)) = 1"
    by (simp add: fifteen_alerts_def ticker_span_def escapeHtml_def)
  have e: "12 < length fifteen_alerts" "flagged (fifteen_alerts ! 12)"
    by (simp_all add: fifteen_alerts_def flagged_def)
  show ?thesis using c d e by simp
qed

lemma init_timers:
  "timers (init pf net source utc page) = timers page @ [(ClockUpdate, 1000), (LoadAllData, REFRESH_INTERVAL)]"
  by (simp add: init_def setInterval_def loadAllData_timers setupClock_def clock_update_def)

lemma loadLayerData_requests:
  "map_of layer_urls name = Some path \<Longrightarrow> snd (loadLayerData pf net name s) = [plain path]"
  by (simp add: loadLayerData_def split: sum.splits)

text \<open>
  Claim C5, as amended. \<open>init\<close> schedules \<open>loadAllData\<close> every
  \<open>REFRESH_INTERVAL\<close> = 180000 ms (after the clock, every 1000 ms). Each firing of that
  timer requests exactly seven URLs: the news (with the filters of the moment), the
  earthquakes, the conflict zones, the hotspots, the GDELT events, the conflicts and the
  disasters. The layers of military bases, nuclear sites, waterways and cables are not
  requested by the timer; \<open>loadLayerData\<close> requests the URL of a layer when it is called
  for it, which the checkbox of the layer does when it is checked while the group of the
  layer is empty, and not otherwise.
\<close>

theorem refresh_polls_tick_endpoints:
  "REFRESH_INTERVAL = 180000
   \<and> timers (init pf net source utc page) =
       timers page @ [(ClockUpdate, 1000), (LoadAllData, REFRESH_INTERVAL)]
   \<and> tick_requests pf net source utc st =
       [news_url source (alertsOnly st), plain ''/api/earthquakes'', plain ''/api/layers/conflict-zones'',
        plain ''/api/layers/hotspots'', plain ''/api/gdelt'', plain ''/api/conflicts'',
        plain ''/api/disasters'']
   \<and> plain ''/api/layers/military-bases'' \<notin> set (tick_requests pf net source utc st)
   \<and> plain ''/api/layers/nuclear'' \<notin> set (tick_requests pf net source utc st)
   \<and> plain ''/api/layers/waterways'' \<notin> set (tick_requests pf net source utc st)
   \<and> plain ''/api/layers/cables'' \<notin> set (tick_requests pf net source utc st)
   \<and> (map_of layer_urls name = Some path \<longrightarrow>
        snd (loadLayerData pf net name s) = [plain path])
   \<and> (map_of layer_urls name = Some path \<and> layerGroups s name = Some [] \<longrightarrow>
        snd (fst (layer_toggled pf net name True s)) = [plain path])
   \<and> (layerGroups s name = Some (l # ls) \<longrightarrow>
        snd (fst (layer_toggled pf net name True s)) = [])
   \<and> snd (fst (layer_toggled pf net name False s)) = []"
proof -
  have t: "tick_requests pf net source utc st =
       [news_url source (alertsOnly st), plain ''/api/earthquakes'', plain ''/api/layers/conflict-zones'',
        plain ''/api/layers/hotspots'', plain ''/api/gdelt'', plain ''/api/conflicts'',
        plain ''/api/disasters'']"
    by (simp add: tick_requests_def loadAllData_requests)
  have n: "plain ''/api/layers/military-bases'' \<notin> set (tick_requests pf net source utc st)"
    "plain ''/api/layers/nuclear'' \<notin> set (tick_requests pf net source utc st)"
    "plain ''/api/layers/waterways'' \<notin> set (tick_requests pf net source utc st)"
    "plain ''/api/layers/cables'' \<notin> set (tick_requests pf net source utc st)"
    unfolding t by (simp_all add: plain_def news_url_def)
  have g: "snd (fst (layer_toggled pf net name True s)) = [plain path]"
    if "map_of layer_urls name = Some path \<and> layerGroups s name = Some []"
    using that by (simp add: layer_toggled_def Let_def loadLayerData_requests)
  have h: "snd (fst (layer_toggled pf net name True s)) = []"
    if "layerGroups s name = Some (l # ls)"
    using that by (simp add: layer_toggled_def Let_def)
  have u: "snd (fst (layer_toggled pf net name False s)) = []"
    by (simp add: layer_toggled_def split: option.splits)
  show ?thesis
    using t n g h u init_timers [of pf net source utc page]
      loadLayerData_requests [of name path pf net s]
    by (simp add: REFRESH_INTERVAL_def)
qed

theorem refresh_polls_tick_endpoints_witness:
  "map_of layer_urls ''cables'' = Some ''/api/layers/cables''
   \<and> snd (loadLayerData sample_platform cable_network ''cables'' map_init) = [plain ''/api/layers/cables'']
   \<and> timers (init sample_platform cable_network [] [] empty_page) = [(ClockUpdate, 1000), (LoadAllData, 180000)]
   \<and> length (tick_requests sample_platform cable_network [] [] empty_page) = 7"
proof -
  have a: "map_of layer_urls ''cables'' = Some ''/api/layers/cables''"
    by (simp add: layer_urls_def)
  show ?thesis
    using a refresh_polls_tick_endpoints [where net = cable_network and source = "[]" and utc = "[]"
        and page = empty_page and st = empty_page and name = "''cables''"
        and path = "''/api/layers/cables''" and pf = sample_platform and s = map_init]
    by (simp add: empty_page_def)
qed

text \<open>
  Claim C5 as stated fails: the dashboard renders the cables served by
  \<open>/api/layers/cables\<close> as polylines, and neither \<open>init\<close> nor a firing of the refresh
  timer requests that URL.
\<close>

theorem cables_not_polled_counterexample:
  "map polyline_points
     (group_layers (fst (loadLayerData sample_platform cable_network ''cables'' map_init)) ''cables'')
     = [Some [(JNum 1, JNum 2), (JNum 3, JNum 4)]]
   \<and> plain ''/api/layers/cables'' \<notin>
       set (requests (run_timer sample_platform cable_network [] [] LoadAllData (init sample_platform cable_network [] [] empty_page)))"
proof -
  have "map polyline_points
     (group_layers (fst (loadLayerData sample_platform cable_network ''cables'' map_init)) ''cables'')
     = [Some [(JNum 1, JNum 2), (JNum 3, JNum 4)]]"
    by (simp add: loadLayerData_def layer_urls_def fetch_json_def cable_network_def dispatch_layer_def
        updateCables_def update_group_def map_init_def layerNames_def forEach_js_def add_to_group_def
        cable_layer_def ge2_def to_number_def latlngs_of_def check_def L_polyline_def toLatLng_numbers
        popup_layer_def template_def clearLayers_def addLayer_def group_layers_def)
  moreover have "plain ''/api/layers/cables'' \<notin>
       set (requests (run_timer sample_platform cable_network [] [] LoadAllData (init sample_platform cable_network [] [] empty_page)))"
    by (simp add: loadAllData_requests init_def setInterval_def setupClock_def clock_update_def
        empty_page_def plain_def news_url_def)
  ultimately show ?thesis by simp
qed

section \<open>Properties of the server side\<close>




lemma retain_events_filter: "retain_events now feed = map to_event (filter (retained now) feed)"
  by (induction feed) simp_all

text \<open>
  Claim C2. The output of the earthquake fetcher is made of exactly the upstream events of
  magnitude at least 4.5 whose time lies within the last 24 hours, in the order of the feed.
  Of two recent events of magnitude 3.0 and 5.2 only the second is in the output.
\<close>

theorem earthquake_filter:
  "fetch_earthquakes now (Inr feed) = map to_event (filter (retained now) feed)
   \<and> set (fetch_earthquakes now (Inr feed)) =
       to_event ` {f \<in> set feed. f_mag f \<ge> 4.5 \<and> within_last_24h now (f_time f)}
   \<and> (f_mag a = 3.0 \<and> f_mag b = 5.2 \<and> within_last_24h now (f_time a) \<and> within_last_24h now (f_time b) \<longrightarrow>
        fetch_earthquakes now (Inr [a, b]) = [to_event b])"
proof -
  have 1: "fetch_earthquakes now (Inr feed) = map to_event (filter (retained now) feed)" for feed
    by (simp add: fetch_earthquakes_def retain_events_filter)
  have 2: "set (fetch_earthquakes now (Inr feed)) =
       to_event ` {f \<in> set feed. f_mag f \<ge> 4.5 \<and> within_last_24h now (f_time f)}"
    unfolding 1 by (auto simp: retained_def)
  have 3: "fetch_earthquakes now (Inr [a, b]) = [to_event b]"
    if "f_mag a = 3.0 \<and> f_mag b = 5.2 \<and> within_last_24h now (f_time a) \<and> within_last_24h now (f_time b)"
    unfolding 1 using that by (simp add: retained_def)
  show ?thesis using 1 2 3 by blast
qed

theorem earthquake_filter_witness:
  "f_mag small_quake = 3.0 \<and> f_mag big_quake = 5.2
   \<and> within_last_24h 3000 (f_time small_quake) \<and> within_last_24h 3000 (f_time big_quake)
   \<and> fetch_earthquakes 3000 (Inr [small_quake, big_quake]) = [to_event big_quake]"
proof -
  have a: "f_mag small_quake = 3.0 \<and> f_mag big_quake = 5.2
     \<and> within_last_24h 3000 (f_time small_quake) \<and> within_last_24h 3000 (f_time big_quake)"
    by (simp add: small_quake_def big_quake_def within_last_24h_def)
  show ?thesis
    using a earthquake_filter [of 3000 "[]" small_quake big_quake] by simp
qed

lemma fetch_rss_concat:
  "fetch_rss kw up srcs = concat (map (\<lambda>s. map (to_news kw (fst s)) (items_of up s)) srcs)"
proof (induction srcs)
  case Nil
  show ?case by simp
next
  case (Cons s srcs)
  then show ?case by (cases s; cases "up (snd s)") (simp_all add: items_of_def)
qed

lemma fetch_rss_length:
  "length (fetch_rss kw up srcs) = sum_list (map (\<lambda>s. length (items_of up s)) srcs)"
  by (simp add: fetch_rss_concat length_concat comp_def)

text \<open>
  Claim C6. The number of items returned by the RSS fetcher is the sum of the numbers of
  items of the sources that succeed, and every item of a source that succeeds is returned.
  A source whose fetch fails changes nothing: the result is the one of the other sources.
  With sixteen sources of which one fails and fifteen succeed, the result is made of the
  items of the fifteen, and its length is the sum of their numbers of items.
\<close>

theorem rss_partial_failure:
  "length (fetch_rss kw up srcs) = sum_list (map (\<lambda>s. length (items_of up s)) srcs)
   \<and> (s \<in> set srcs \<and> succeeded up s \<longrightarrow>
        set (map (to_news kw (fst s)) (items_of up s)) \<subseteq> set (fetch_rss kw up srcs))
   \<and> (up u = Inl e \<longrightarrow>
        fetch_rss kw up (before @ (name, u) # after) = fetch_rss kw up (before @ after))
   \<and> (up u = Inl e \<and> length (before @ (name, u) # after) = 16 \<and> list_all (succeeded up) (before @ after) \<longrightarrow>
        length (before @ after) = 15
      \<and> fetch_rss kw up (before @ (name, u) # after) =
          concat (map (\<lambda>s. map (to_news kw (fst s)) (items_of up s)) (before @ after))
      \<and> length (fetch_rss kw up (before @ (name, u) # after)) =
          sum_list (map (\<lambda>s. length (items_of up s)) (before @ after)))"
proof -
  have drop: "fetch_rss kw up (before @ (name, u) # after) = fetch_rss kw up (before @ after)"
    if "up u = Inl e"
    using that by (simp add: fetch_rss_concat items_of_def)
  have sub: "set (map (to_news kw (fst s)) (items_of up s)) \<subseteq> set (fetch_rss kw up srcs)"
    if "s \<in> set srcs \<and> succeeded up s"
    using that by (auto simp: fetch_rss_concat)
  have sixteen: "length (before @ after) = 15
      \<and> fetch_rss kw up (before @ (name, u) # after) =
          concat (map (\<lambda>s. map (to_news kw (fst s)) (items_of up s)) (before @ after))
      \<and> length (fetch_rss kw up (before @ (name, u) # after)) =
          sum_list (map (\<lambda>s. length (items_of up s)) (before @ after))"
    if h: "up u = Inl e \<and> length (before @ (name, u) # after) = 16 \<and> list_all (succeeded up) (before @ after)"
  proof -
    have "fetch_rss kw up (before @ (name, u) # after) = fetch_rss kw up (before @ after)"
      using h drop by simp
    then show ?thesis using h by (simp add: fetch_rss_length) (simp add: fetch_rss_concat)
  qed
  show ?thesis using drop sub sixteen fetch_rss_length [of kw up srcs] by blast
qed

theorem rss_partial_failure_witness:
  "one_down ''http://feeds/c'' = Inl FetchError
   \<and> length (take 2 sixteen_sources @ (''c'', ''http://feeds/c'') # drop 3 sixteen_sources) = 16
   \<and> list_all (succeeded one_down) (take 2 sixteen_sources @ drop 3 sixteen_sources)
   \<and> take 2 sixteen_sources @ (''c'', ''http://feeds/c'') # drop 3 sixteen_sources = sixteen_sources
   \<and> length (fetch_rss [''war''] one_down sixteen_sources) = 30"
proof -
  have a: "one_down ''http://feeds/c'' = Inl FetchError"
    by (simp add: one_down_def)
  have b: "length (take 2 sixteen_sources @ (''c'', ''http://feeds/c'') # drop 3 sixteen_sources) = 16"
    by (simp add: sixteen_sources_def)
  have c: "list_all (succeeded one_down) (take 2 sixteen_sources @ drop 3 sixteen_sources)"
    by (simp add: sixteen_sources_def succeeded_def one_down_def)
  have d: "take 2 sixteen_sources @ (''c'', ''http://feeds/c'') # drop 3 sixteen_sources = sixteen_sources"
    by (simp add: sixteen_sources_def)
  have e: "sum_list (map (\<lambda>s. length (items_of one_down s)) (take 2 sixteen_sources @ drop 3 sixteen_sources)) = 30"
    by (simp add: sixteen_sources_def items_of_def one_down_def)
  have "length (fetch_rss [''war''] one_down
        (take 2 sixteen_sources @ (''c'', ''http://feeds/c'') # drop 3 sixteen_sources)) =
      sum_list (map (\<lambda>s. length (items_of one_down s)) (take 2 sixteen_sources @ drop 3 sixteen_sources))"
    using a b c rss_partial_failure [where up = one_down and u = "''http://feeds/c''" and e = FetchError
        and before = "take 2 sixteen_sources" and name = "''c''" and after = "drop 3 sixteen_sources"
        and kw = "[''war'']"]
    by blast
  then have "length (fetch_rss [''war''] one_down sixteen_sources) = 30"
    by (simp only: d e)
  then show ?thesis using a b c d by blast
qed

end
